theory Spec2Isabelle
  imports Complex_Main "HOL-Library.Word"
begin

section \<open>JavaScript strings\<close>

text \<open>
  A JavaScript string is a sequence of UTF-16 code units; \<open>length\<close>, \<open>substring\<close>,
  \<open>includes\<close> and \<open>startsWith\<close> all count and compare code units. The literals of
  \<^verbatim>\<open>src/dist/index.js\<close> that are not ASCII are written out as their code units.
\<close>

type_synonym jschar = "16 word"
type_synonym jsstring = "jschar list"

definition ascii :: "string \<Rightarrow> jsstring" where
  "ascii s = map (\<lambda>c. of_nat (of_char c)) s"

text \<open>\<^verbatim>\<open>s.startsWith(p)\<close> and \<^verbatim>\<open>s.includes(p)\<close>.\<close>

definition startsWith :: "jsstring \<Rightarrow> jsstring \<Rightarrow> bool" where
  "startsWith s p \<longleftrightarrow> take (length p) s = p"

fun includes_str :: "jsstring \<Rightarrow> jsstring \<Rightarrow> bool" where
  "includes_str [] p \<longleftrightarrow> p = []"
| "includes_str (c # cs) p \<longleftrightarrow> startsWith (c # cs) p \<or> includes_str cs p"

text \<open>
  The characters matched by \<^verbatim>\<open>\s\<close> in a regular expression and removed by
  \<^verbatim>\<open>trim()\<close>: ECMAScript's WhiteSpace and LineTerminator code points, all of
  them in the Basic Multilingual Plane, so each is one code unit.
\<close>

definition isWhiteSpace :: "jschar \<Rightarrow> bool" where
  "isWhiteSpace c \<longleftrightarrow>
     c \<in> {0x09, 0x0A, 0x0B, 0x0C, 0x0D, 0x20, 0xA0, 0x1680,
          0x2028, 0x2029, 0x202F, 0x205F, 0x3000, 0xFEFF}
     \<or> (0x2000 \<le> c \<and> c \<le> 0x200A)"

definition trim :: "jsstring \<Rightarrow> jsstring" where
  "trim s = rev (dropWhile isWhiteSpace (rev (dropWhile isWhiteSpace s)))"

text \<open>\<^verbatim>\<open>s.substring(0, n)\<close> for a non-negative integer \<open>n\<close>.\<close>

definition substring0 :: "nat \<Rightarrow> jsstring \<Rightarrow> jsstring" where
  "substring0 n s = take n s"

text \<open>
  \<^verbatim>\<open>s.replace(/[...]/g, r)\<close> for a character class: every code unit of the class is
  replaced by \<open>r\<close>.
\<close>

definition replace_class :: "(jschar \<Rightarrow> bool) \<Rightarrow> jsstring \<Rightarrow> jsstring \<Rightarrow> jsstring" where
  "replace_class P r s = concat (map (\<lambda>c. if P c then r else [c]) s)"

text \<open>
  \<^verbatim>\<open>s.replace(/\s+/g, r)\<close>: the scan goes left to right; at a whitespace character the
  greedy \<^verbatim>\<open>+\<close> takes the whole run, which is replaced by \<open>r\<close>, and the scan goes on
  after the run.
\<close>

function replace_ws_runs :: "jsstring \<Rightarrow> jsstring \<Rightarrow> jsstring" where
  "replace_ws_runs r [] = []"
| "replace_ws_runs r (c # cs) =
     (if isWhiteSpace c then r @ replace_ws_runs r (dropWhile isWhiteSpace cs)
      else c # replace_ws_runs r cs)"
  by pat_completeness auto
termination
  by (relation "measure (\<lambda>(r, s). length s)")
     (auto simp: length_dropWhile_le less_Suc_eq_le)

text \<open>The character class \<^verbatim>\<open>[<>:"/\\|?*]\<close> of \<^verbatim>\<open>sanitizeFilename\<close>.\<close>

definition illegalChar :: "jschar \<Rightarrow> bool" where
  "illegalChar c \<longleftrightarrow> c \<in> {0x3C, 0x3E, 0x3A, 0x22, 0x2F, 0x5C, 0x7C, 0x3F, 0x2A}"

definition sanitizeFilename :: "jsstring \<Rightarrow> jsstring" where
  "sanitizeFilename filename =
     substring0 200 (trim (replace_ws_runs [0x20] (replace_class illegalChar [0x5F] filename)))"

text \<open>
  The sanitizing steps as the specification words them, independently of how the regular
  expressions scan: a pointwise substitution, and a pass that keeps one space for the
  first character of each whitespace run and drops the rest of the run.
\<close>

definition substitute_illegal :: "jsstring \<Rightarrow> jsstring" where
  "substitute_illegal s = map (\<lambda>c. if illegalChar c then 0x5F else c) s"

fun collapse_from :: "bool \<Rightarrow> jsstring \<Rightarrow> jsstring" where
  "collapse_from inRun [] = []"
| "collapse_from inRun (c # cs) =
     (if isWhiteSpace c then (if inRun then [] else [0x20]) @ collapse_from True cs
      else c # collapse_from False cs)"

definition collapse_whitespace :: "jsstring \<Rightarrow> jsstring" where
  "collapse_whitespace s = collapse_from False s"

definition spec_sanitize :: "jsstring \<Rightarrow> jsstring" where
  "spec_sanitize s = take 200 (trim (collapse_whitespace (substitute_illegal s)))"

section \<open>JavaScript values, exceptions and the runtime\<close>

text \<open>
  The values that flow through the plugin: what \<^verbatim>\<open>response.json()\<close> can return, the
  host's \<^verbatim>\<open>settings\<close>, and the object literals the adapters build. The program does
  no arithmetic on numbers; it only tests them for truthiness and compares one with
  \<open>200\<close>, so a finite number is kept as a rational; \<open>Num 0\<close> stands for both zeros.
\<close>

datatype jsnum = Num rat | Infinity bool | NaN

datatype jsval =
    JUndefined
  | JNull
  | JBool bool
  | JNum jsnum
  | JStr jsstring
  | JArr "jsval list"
  | JObj "(jsstring \<times> jsval) list"

text \<open>ToBoolean, as applied by \<^verbatim>\<open>!\<close>, \<^verbatim>\<open>&&\<close>, \<^verbatim>\<open>||\<close> and \<^verbatim>\<open>if\<close>.\<close>

fun truthy :: "jsval \<Rightarrow> bool" where
  "truthy JUndefined = False"
| "truthy JNull = False"
| "truthy (JBool b) = b"
| "truthy (JNum (Num q)) = (q \<noteq> 0)"
| "truthy (JNum (Infinity _)) = True"
| "truthy (JNum NaN) = False"
| "truthy (JStr s) = (s \<noteq> [])"
| "truthy (JArr _) = True"
| "truthy (JObj _) = True"

text \<open>\<^verbatim>\<open>a || b\<close> where evaluating \<open>b\<close> has no effect.\<close>

definition js_or :: "jsval \<Rightarrow> jsval \<Rightarrow> jsval" where
  "js_or a b = (if truthy a then a else b)"

text \<open>
  Exceptions. \<open>Error m\<close> is \<^verbatim>\<open>new Error(m)\<close>, thrown by the program itself. \<open>Engine f\<close> is
  a TypeError or URIError raised by the language runtime; its message text is the
  engine's own. \<open>Host m\<close> is a rejection of \<^verbatim>\<open>fetch\<close> or of \<^verbatim>\<open>response.json()\<close> with
  message \<open>m\<close> (a network failure, an abort, a body that is not JSON).
\<close>

datatype fault = ReadOfNullish | NotAFunction | MalformedURI

datatype exn = Error jsstring | Engine fault | Host jsstring

text \<open>
  Reading the property \<open>k\<close> of a value: \<^verbatim>\<open>v.k\<close>. On \<^verbatim>\<open>undefined\<close> and \<^verbatim>\<open>null\<close>
  it throws. On an object, listed with each of its keys once, it is the own property, or
  \<^verbatim>\<open>undefined\<close>. The program reads
  only the names \<^verbatim>\<open>url videoUrl title desc cover coverUrl author nickname duration
  nwm_video_url cover_url code downloadUrl filename size timeout\<close>, none of which is
  a property that strings, numbers, booleans, arrays or \<^verbatim>\<open>Object.prototype\<close> have, so
  on those the read is \<^verbatim>\<open>undefined\<close>.
\<close>

fun propOf :: "jsval \<Rightarrow> jsstring \<Rightarrow> jsval" where
  "propOf (JObj kvs) k = (case map_of kvs k of Some v \<Rightarrow> v | None \<Rightarrow> JUndefined)"
| "propOf _ k = JUndefined"

definition nullish :: "jsval \<Rightarrow> bool" where
  "nullish v \<longleftrightarrow> v = JUndefined \<or> v = JNull"

definition get_prop :: "jsval \<Rightarrow> jsstring \<Rightarrow> exn + jsval" where
  "get_prop v k = (if nullish v then Inl (Engine ReadOfNullish) else Inr (propOf v k))"

text \<open>Optional chaining \<^verbatim>\<open>v?.k\<close>.\<close>

definition opt_prop :: "jsval \<Rightarrow> jsstring \<Rightarrow> jsval" where
  "opt_prop v k = (if nullish v then JUndefined else propOf v k)"

text \<open>
  The decimal text of an integer, as a template literal prints \<^verbatim>\<open>Date.now()\<close> and
  \<^verbatim>\<open>response.status\<close> (both integers far below \<open>10^21\<close>, where JavaScript would switch
  to exponent notation).
\<close>

fun decimal_nat :: "nat \<Rightarrow> jsstring" where
  "decimal_nat n =
     (if n < 10 then [0x30 + of_nat n]
      else decimal_nat (n div 10) @ [0x30 + of_nat (n mod 10)])"

declare decimal_nat.simps [simp del]

definition decimal :: "int \<Rightarrow> jsstring" where
  "decimal i = (if i < 0 then 0x2D # decimal_nat (nat (- i)) else decimal_nat (nat i))"

text \<open>
  \<^verbatim>\<open>encodeURIComponent\<close>: a code unit of the unreserved set is kept; any other code point
  is written as the percent-escaped octets of its UTF-8 form; a surrogate that is not
  part of a pair throws a URIError.
\<close>

definition uriUnescaped :: "jschar \<Rightarrow> bool" where
  "uriUnescaped c \<longleftrightarrow>
     (0x41 \<le> c \<and> c \<le> 0x5A) \<or> (0x61 \<le> c \<and> c \<le> 0x7A) \<or> (0x30 \<le> c \<and> c \<le> 0x39)
     \<or> c \<in> {0x2D, 0x5F, 0x2E, 0x21, 0x7E, 0x2A, 0x27, 0x28, 0x29}"

definition hexDigit :: "nat \<Rightarrow> jschar" where
  "hexDigit d = (if d < 10 then 0x30 + of_nat d else 0x41 + of_nat (d - 10))"

definition utf8 :: "nat \<Rightarrow> nat list" where
  "utf8 cp =
     (if cp < 0x80 then [cp]
      else if cp < 0x800 then [0xC0 + cp div 0x40, 0x80 + cp mod 0x40]
      else if cp < 0x10000 then
        [0xE0 + cp div 0x1000, 0x80 + (cp div 0x40) mod 0x40, 0x80 + cp mod 0x40]
      else
        [0xF0 + cp div 0x40000, 0x80 + (cp div 0x1000) mod 0x40,
         0x80 + (cp div 0x40) mod 0x40, 0x80 + cp mod 0x40])"

definition escape :: "nat \<Rightarrow> jsstring" where
  "escape cp = concat (map (\<lambda>b. [0x25, hexDigit (b div 16), hexDigit (b mod 16)]) (utf8 cp))"

fun encodeURIComponent :: "jsstring \<Rightarrow> exn + jsstring" where
  "encodeURIComponent [] = Inr []"
| "encodeURIComponent (c # cs) =
     (if uriUnescaped c then map_sum id ((#) c) (encodeURIComponent cs)
      else if c < 0xD800 \<or> 0xDFFF < c then
        map_sum id ((@) (escape (unat c))) (encodeURIComponent cs)
      else if 0xDC00 \<le> c then Inl (Engine MalformedURI)
      else (case cs of
              [] \<Rightarrow> Inl (Engine MalformedURI)
            | d # ds \<Rightarrow>
                if 0xDC00 \<le> d \<and> d \<le> 0xDFFF then
                  map_sum id
                    ((@) (escape (0x10000 + (unat c - 0xD800) * 0x400 + (unat d - 0xDC00))))
                    (encodeURIComponent ds)
                else Inl (Engine MalformedURI)))"

declare encodeURIComponent.simps [simp del]

section \<open>The environment: network, clock, engine\<close>

text \<open>
  A \<^verbatim>\<open>fetch\<close> call is recorded as the request it sends. \<open>fetch_timeout\<close> is the delay
  given to the \<^verbatim>\<open>setTimeout\<close> whose callback aborts the request's signal. Adapter
  requests give no method, so \<^verbatim>\<open>fetch\<close> sends GET.
\<close>

record request =
  fetch_method :: jsstring
  fetch_url :: jsstring
  fetch_headers :: "(jsstring \<times> jsstring) list"
  fetch_timeout :: jsval

text \<open>
  What the program reads of a response: \<^verbatim>\<open>status\<close>, \<^verbatim>\<open>url\<close> (the final URL after
  redirects) and the outcome of \<^verbatim>\<open>json()\<close>. \<^verbatim>\<open>response.ok\<close> is, by the Fetch standard,
  true exactly for a status from 200 to 299.
\<close>

record response =
  status :: nat
  final_url :: jsstring
  json :: "exn + jsval"

definition ok :: "response \<Rightarrow> bool" where
  "ok r \<longleftrightarrow> 200 \<le> status r \<and> status r \<le> 299"

datatype fetch_outcome = Rejects exn | Resolves response

text \<open>
  The environment of one run: how the network answers each request (a rejection covers
  network errors and the abort at the deadline), what the successive calls of
  \<^verbatim>\<open>Date.now()\<close> return, and the engine's message text for its own errors.
  The world is what a run changes: the requests sent so far and the number of clock
  reads. Console output is not modelled; it has no influence on any result.
\<close>

record env =
  net :: "request \<Rightarrow> fetch_outcome"
  clock :: "nat \<Rightarrow> int"
  engine_message :: "fault \<Rightarrow> jsstring"

record world =
  fetch_log :: "request list"
  clock_reads :: nat

definition fetch :: "env \<Rightarrow> request \<Rightarrow> world \<Rightarrow> fetch_outcome \<times> world" where
  "fetch e r w = (net e r, w\<lparr>fetch_log := fetch_log w @ [r]\<rparr>)"

definition Date_now :: "env \<Rightarrow> world \<Rightarrow> int \<times> world" where
  "Date_now e w = (clock e (clock_reads w), w\<lparr>clock_reads := Suc (clock_reads w)\<rparr>)"

text \<open>\<^verbatim>\<open>error.message\<close>.\<close>

fun message :: "env \<Rightarrow> exn \<Rightarrow> jsstring" where
  "message e (Error m) = m"
| "message e (Engine f) = engine_message e f"
| "message e (Host m) = m"

section \<open>The program\<close>

subsection \<open>String literals of the source\<close>

definition mobile_user_agent :: jsstring where
  "mobile_user_agent = ascii ''Mozilla/5.0 (iPhone; CPU iPhone OS 15_0 like Mac OS X) AppleWebKit/605.1.15 (KHTML, like Gecko) Version/15.0 Mobile/15E148 Safari/604.1''"

definition desktop_user_agent :: jsstring where
  "desktop_user_agent = ascii ''Mozilla/5.0 (Windows NT 10.0; Win64; x64) AppleWebKit/537.36''"

text \<open>The default title, four code units: U+6296 U+97F3 U+89C6 U+9891.\<close>

definition default_title :: jsstring where
  "default_title = [0x6296, 0x97F3, 0x89C6, 0x9891]"

text \<open>
  The text that follows \<^verbatim>\<open>API1\<close>, \<^verbatim>\<open>API2\<close> or \<^verbatim>\<open>API3\<close> in the message thrown when the
  body lacks the adapter's download-URL field: U+8FD4 U+56DE U+6570 U+636E U+683C U+5F0F
  U+5F02 U+5E38.
\<close>

definition format_error_suffix :: jsstring where
  "format_error_suffix = [0x8FD4, 0x56DE, 0x6570, 0x636E, 0x683C, 0x5F0F, 0x5F02, 0x5E38]"

text \<open>The message of the error thrown when every parser has failed (line 117).\<close>

definition all_failed_message :: jsstring where
  "all_failed_message = [0x6240, 0x6709, 0x89E3, 0x6790, 0x6E90, 0x90FD, 0x5931, 0x8D25, 0x4E86]"

text \<open>The message of the missing-download-URL error (line 22).\<close>

definition missing_url_message :: jsstring where
  "missing_url_message =
     [0x65E0, 0x6CD5, 0x83B7, 0x53D6, 0x89C6, 0x9891, 0x4E0B, 0x8F7D, 0x5730, 0x5740]"

text \<open>The prefix of the unsupported-protocol message (line 27), ending in colon and space.\<close>

definition unsupported_protocol_prefix :: jsstring where
  "unsupported_protocol_prefix = [0x4E0D, 0x652F, 0x6301, 0x7684, 0x534F, 0x8BAE, 0x3A, 0x20]"

text \<open>The prefix of the message of the wrapping error (line 61), ending in colon and space.\<close>

definition failure_prefix :: jsstring where
  "failure_prefix = [0x6296, 0x97F3, 0x89E3, 0x6790, 0x5931, 0x8D25, 0x3A, 0x20]"

text \<open>The prefix of the fallback display name (line 31): the default title and an underscore.\<close>

definition fallback_name_prefix :: jsstring where
  "fallback_name_prefix = [0x6296, 0x97F3, 0x89C6, 0x9891, 0x5F]"

subsection \<open>resolveRedirect\<close>

definition redirect_request :: "jsstring \<Rightarrow> jsval \<Rightarrow> request" where
  "redirect_request url timeout =
     \<lparr>fetch_method = ascii ''HEAD'', fetch_url = url,
      fetch_headers = [(ascii ''User-Agent'', mobile_user_agent)],
      fetch_timeout = timeout\<rparr>"

definition resolveRedirect ::
    "env \<Rightarrow> jsstring \<Rightarrow> jsval \<Rightarrow> world \<Rightarrow> (exn + jsstring) \<times> world" where
  "resolveRedirect e url timeout w =
     (if \<not> includes_str url (ascii ''v.douyin.com'') then (Inr url, w)
      else (case fetch e (redirect_request url timeout) w of
              (Resolves response, w') \<Rightarrow> (Inr (final_url response), w')
            | (Rejects error, w') \<Rightarrow> (Inr url, w')))"

subsection \<open>The three adapters\<close>

definition api_request :: "jsstring \<Rightarrow> jsval \<Rightarrow> request" where
  "api_request apiUrl timeout =
     \<lparr>fetch_method = ascii ''GET'', fetch_url = apiUrl,
      fetch_headers = [(ascii ''User-Agent'', desktop_user_agent),
                       (ascii ''Accept'', ascii ''application/json'')],
      fetch_timeout = timeout\<rparr>"

text \<open>The generated file name \<^verbatim>\<open>douyin_${Date.now()}.mp4\<close>.\<close>

definition generated_filename :: "int \<Rightarrow> jsstring" where
  "generated_filename now = ascii ''douyin_'' @ decimal now @ ascii ''.mp4''"

text \<open>
  Each adapter: build the API URL (\<^verbatim>\<open>encodeURIComponent\<close> throws on a malformed string,
  before anything is sent), fetch it, throw on a status that is not \<^verbatim>\<open>ok\<close>, read the
  JSON body, and map it to a record or throw. The first property read of the body throws
  when the body is \<^verbatim>\<open>null\<close>. The \<^verbatim>\<open>catch\<close> block of each adapter clears the timer and
  rethrows, so every error passes through unchanged.
\<close>

definition parseWithAPI1 ::
    "env \<Rightarrow> jsstring \<Rightarrow> jsval \<Rightarrow> world \<Rightarrow> (exn + jsval) \<times> world" where
  "parseWithAPI1 e url timeout w =
     (case encodeURIComponent url of
        Inl error \<Rightarrow> (Inl error, w)
      | Inr encoded \<Rightarrow>
          (case fetch e (api_request (ascii ''https://api.jiexi.top/?url='' @ encoded) timeout) w of
             (Rejects error, w') \<Rightarrow> (Inl error, w')
           | (Resolves response, w') \<Rightarrow>
               if \<not> ok response then
                 (Inl (Error (ascii ''API1 HTTP '' @ decimal (int (status response)))), w')
               else (case json response of
                       Inl error \<Rightarrow> (Inl error, w')
                     | Inr data \<Rightarrow>
                         if nullish data then (Inl (Engine ReadOfNullish), w')
                         else if truthy (js_or (propOf data (ascii ''url''))
                                   (propOf data (ascii ''videoUrl'')))
                         then
                           (case Date_now e w' of
                              (now, w'') \<Rightarrow>
                                (Inr (JObj
                                   [(ascii ''title'',
                                       js_or (js_or (propOf data (ascii ''title''))
                                                (propOf data (ascii ''desc'')))
                                         (JStr default_title)),
                                    (ascii ''downloadUrl'',
                                       js_or (propOf data (ascii ''url''))
                                         (propOf data (ascii ''videoUrl''))),
                                    (ascii ''cover'',
                                       js_or (propOf data (ascii ''cover''))
                                         (propOf data (ascii ''coverUrl''))),
                                    (ascii ''author'',
                                       js_or (js_or (propOf data (ascii ''author''))
                                                (propOf data (ascii ''nickname'')))
                                         (JStr [])),
                                    (ascii ''duration'',
                                       js_or (propOf data (ascii ''duration'')) (JNum (Num 0))),
                                    (ascii ''filename'', JStr (generated_filename now))]), w''))
                         else (Inl (Error (ascii ''API1'' @ format_error_suffix)), w'))))"

definition parseWithAPI2 ::
    "env \<Rightarrow> jsstring \<Rightarrow> jsval \<Rightarrow> world \<Rightarrow> (exn + jsval) \<times> world" where
  "parseWithAPI2 e url timeout w =
     (case encodeURIComponent url of
        Inl error \<Rightarrow> (Inl error, w)
      | Inr encoded \<Rightarrow>
          (case fetch e (api_request (ascii ''https://api.douyin.wtf/api?url='' @ encoded) timeout) w of
             (Rejects error, w') \<Rightarrow> (Inl error, w')
           | (Resolves response, w') \<Rightarrow>
               if \<not> ok response then
                 (Inl (Error (ascii ''API2 HTTP '' @ decimal (int (status response)))), w')
               else (case json response of
                       Inl error \<Rightarrow> (Inl error, w')
                     | Inr data \<Rightarrow>
                         if nullish data then (Inl (Engine ReadOfNullish), w')
                         else if truthy (propOf data (ascii ''nwm_video_url''))
                         then
                           (case Date_now e w' of
                              (now, w'') \<Rightarrow>
                                (Inr (JObj
                                   [(ascii ''title'',
                                       js_or (propOf data (ascii ''desc'')) (JStr default_title)),
                                    (ascii ''downloadUrl'', propOf data (ascii ''nwm_video_url'')),
                                    (ascii ''cover'', propOf data (ascii ''cover_url'')),
                                    (ascii ''author'',
                                       js_or (opt_prop (propOf data (ascii ''author''))
                                                (ascii ''nickname''))
                                         (JStr [])),
                                    (ascii ''duration'',
                                       js_or (propOf data (ascii ''duration'')) (JNum (Num 0))),
                                    (ascii ''filename'', JStr (generated_filename now))]), w''))
                         else (Inl (Error (ascii ''API2'' @ format_error_suffix)), w'))))"

definition parseWithAPI3 ::
    "env \<Rightarrow> jsstring \<Rightarrow> jsval \<Rightarrow> world \<Rightarrow> (exn + jsval) \<times> world" where
  "parseWithAPI3 e url timeout w =
     (case encodeURIComponent url of
        Inl error \<Rightarrow> (Inl error, w)
      | Inr encoded \<Rightarrow>
          (case fetch e (api_request (ascii ''https://tenapi.cn/douyin/?url='' @ encoded) timeout) w of
             (Rejects error, w') \<Rightarrow> (Inl error, w')
           | (Resolves response, w') \<Rightarrow>
               if \<not> ok response then
                 (Inl (Error (ascii ''API3 HTTP '' @ decimal (int (status response)))), w')
               else (case json response of
                       Inl error \<Rightarrow> (Inl error, w')
                     | Inr data \<Rightarrow>
                         if nullish data then (Inl (Engine ReadOfNullish), w')
                         else if propOf data (ascii ''code'') = JNum (Num 200)
                                 \<and> truthy (propOf data (ascii ''url''))
                         then
                           (case Date_now e w' of
                              (now, w'') \<Rightarrow>
                                (Inr (JObj
                                   [(ascii ''title'',
                                       js_or (propOf data (ascii ''title'')) (JStr default_title)),
                                    (ascii ''downloadUrl'', propOf data (ascii ''url'')),
                                    (ascii ''cover'',
                                       js_or (propOf data (ascii ''cover'')) (JStr [])),
                                    (ascii ''author'',
                                       js_or (propOf data (ascii ''author'')) (JStr [])),
                                    (ascii ''duration'', JNum (Num 0)),
                                    (ascii ''filename'', JStr (generated_filename now))]), w''))
                         else (Inl (Error (ascii ''API3'' @ format_error_suffix)), w'))))"

subsection \<open>parseWithFallback\<close>

text \<open>
  The loop of \<^verbatim>\<open>parseWithFallback\<close> over a list of parsers. A parser is any
  asynchronous function of the URL and the timeout: it may change the world, and it
  returns a value or throws. The test \<^verbatim>\<open>result && result.downloadUrl\<close> reads the property
  only of a truthy \<open>result\<close>, so the read cannot throw.
\<close>

type_synonym 'w parser = "jsstring \<Rightarrow> jsval \<Rightarrow> 'w \<Rightarrow> (exn + jsval) \<times> 'w"

definition usable :: "jsval \<Rightarrow> bool" where
  "usable result \<longleftrightarrow> truthy result \<and> truthy (propOf result (ascii ''downloadUrl''))"

fun parseWithFallback_loop ::
    "'w parser list \<Rightarrow> jsstring \<Rightarrow> jsval \<Rightarrow> 'w \<Rightarrow> (exn + jsval) \<times> 'w" where
  "parseWithFallback_loop [] url timeout w = (Inl (Error all_failed_message), w)"
| "parseWithFallback_loop (parser # parsers) url timeout w =
     (case parser url timeout w of
        (Inr result, w') \<Rightarrow>
          if usable result then (Inr result, w')
          else parseWithFallback_loop parsers url timeout w'
      | (Inl error, w') \<Rightarrow> parseWithFallback_loop parsers url timeout w')"

definition parseWithFallback ::
    "env \<Rightarrow> jsstring \<Rightarrow> jsval \<Rightarrow> world \<Rightarrow> (exn + jsval) \<times> world" where
  "parseWithFallback e =
     parseWithFallback_loop [parseWithAPI1 e, parseWithAPI2 e, parseWithAPI3 e]"

subsection \<open>The entry point (default export)\<close>

text \<open>
  The host's context: \<^verbatim>\<open>ctx.req.url\<close>, a string, and \<^verbatim>\<open>ctx.settings\<close>, which may be
  absent. The value returned on success is the Resolution Outcome.
\<close>

record ctx =
  ctx_req_url :: jsstring
  ctx_settings :: jsval

record file_req =
  req_url :: jsval
  req_headers :: "(jsstring \<times> jsstring) list"

record file_entry =
  file_name :: jsstring
  file_size :: jsval
  req :: file_req

record extras =
  cover :: jsval
  author :: jsval
  duration :: jsval
  platform :: jsstring

record outcome =
  name :: jsval
  files :: "file_entry list"
  extra :: extras

definition download_headers :: "(jsstring \<times> jsstring) list" where
  "download_headers =
     [(ascii ''User-Agent'', mobile_user_agent),
      (ascii ''Referer'', ascii ''https://www.douyin.com/''),
      (ascii ''Accept'', ascii ''video/mp4,video/webm,video/*;q=0.9,*/*;q=0.8''),
      (ascii ''Accept-Language'', ascii ''zh-CN,zh;q=0.9,en;q=0.8''),
      (ascii ''Range'', ascii ''bytes=0-'')]"

text \<open>
  \<^verbatim>\<open>sanitizeFilename(v)\<close> for an arbitrary value: \<^verbatim>\<open>v.replace\<close> exists on strings only.
\<close>

definition sanitize_value :: "jsval \<Rightarrow> exn + jsstring" where
  "sanitize_value v =
     (case v of
        JStr filename \<Rightarrow> Inr (sanitizeFilename filename)
      | _ \<Rightarrow> if nullish v then Inl (Engine ReadOfNullish) else Inl (Engine NotAFunction))"

text \<open>
  Lines 30 to 31: \<^verbatim>\<open>videoInfo.title || `..._${Date.now()}`\<close>; the clock is read only when
  the title is falsy.
\<close>

definition display_name :: "env \<Rightarrow> jsval \<Rightarrow> world \<Rightarrow> jsval \<times> world" where
  "display_name e videoInfo w =
     (if truthy (propOf videoInfo (ascii ''title'')) then (propOf videoInfo (ascii ''title''), w)
      else (case Date_now e w of
              (now, w') \<Rightarrow> (JStr (fallback_name_prefix @ decimal now), w')))"

text \<open>
  Lines 21 to 57, the part of the \<^verbatim>\<open>try\<close> block after \<^verbatim>\<open>parseWithFallback\<close> has
  returned \<open>videoInfo\<close>: the two checks of the download URL, then the result object, whose
  properties are evaluated in the order written. \<^verbatim>\<open>startsWith\<close> exists on strings only.
\<close>

definition assemble :: "env \<Rightarrow> jsval \<Rightarrow> world \<Rightarrow> (exn + outcome) \<times> world" where
  "assemble e videoInfo w =
     (case get_prop videoInfo (ascii ''downloadUrl'') of
        Inl error \<Rightarrow> (Inl error, w)
      | Inr downloadUrl \<Rightarrow>
          if \<not> truthy downloadUrl then (Inl (Error missing_url_message), w)
          else (case downloadUrl of
                  JStr u \<Rightarrow>
                    if \<not> startsWith u (ascii ''http'') then
                      (Inl (Error (unsupported_protocol_prefix @ u)), w)
                    else (case display_name e videoInfo w of
                            (nm, w') \<Rightarrow>
                              (case sanitize_value (propOf videoInfo (ascii ''filename'')) of
                                 Inl error \<Rightarrow> (Inl error, w')
                               | Inr fname \<Rightarrow>
                                   (Inr \<lparr>name = nm,
                                         files =
                                           [\<lparr>file_name = fname,
                                             file_size =
                                               js_or (propOf videoInfo (ascii ''size''))
                                                 (JNum (Num 0)),
                                             req = \<lparr>req_url = downloadUrl,
                                                    req_headers = download_headers\<rparr>\<rparr>],
                                         extra =
                                           \<lparr>cover = propOf videoInfo (ascii ''cover''),
                                            author = propOf videoInfo (ascii ''author''),
                                            duration = propOf videoInfo (ascii ''duration''),
                                            platform = ascii ''douyin''\<rparr>\<rparr>, w')))
                | _ \<Rightarrow> (Inl (Engine NotAFunction), w)))"

text \<open>The body of the \<^verbatim>\<open>try\<close> block, lines 12 to 57.\<close>

definition default_export_try ::
    "env \<Rightarrow> jsstring \<Rightarrow> jsval \<Rightarrow> world \<Rightarrow> (exn + outcome) \<times> world" where
  "default_export_try e videoUrl timeout w =
     (case resolveRedirect e videoUrl timeout w of
        (Inl error, w1) \<Rightarrow> (Inl error, w1)
      | (Inr finalUrl, w1) \<Rightarrow>
          (case parseWithFallback e finalUrl timeout w1 of
             (Inl error, w2) \<Rightarrow> (Inl error, w2)
           | (Inr videoInfo, w2) \<Rightarrow> assemble e videoInfo w2))"

text \<open>Line 9: \<^verbatim>\<open>settings?.timeout || 30000\<close>.\<close>

definition effective_timeout :: "ctx \<Rightarrow> jsval" where
  "effective_timeout c = js_or (opt_prop (ctx_settings c) (ascii ''timeout'')) (JNum (Num 30000))"

text \<open>The default export: the \<^verbatim>\<open>try\<close> block, and the \<^verbatim>\<open>catch\<close> that wraps any error.\<close>

definition default_export :: "env \<Rightarrow> ctx \<Rightarrow> world \<Rightarrow> (exn + outcome) \<times> world" where
  "default_export e c w =
     (case default_export_try e (ctx_req_url c) (effective_timeout c) w of
        (Inr result, w') \<Rightarrow> (Inr result, w')
      | (Inl error, w') \<Rightarrow> (Inl (Error (failure_prefix @ message e error)), w'))"

section \<open>The adapters in factored form\<close>

text \<open>
  The three adapters differ in three places only: the tag in their messages, the base of
  the API URL, and the mapping of the body. \<open>call_api\<close> is what they share, with these
  as parameters; \<open>extract1\<close>, \<open>extract2\<close> and \<open>extract3\<close> are the three mappings. Each
  adapter is shown below to be \<open>call_api\<close> with its own parameters.
\<close>

definition call_api ::
    "env \<Rightarrow> jsstring \<Rightarrow> jsstring \<Rightarrow> (jsval \<Rightarrow> world \<Rightarrow> (exn + jsval) \<times> world) \<Rightarrow>
     jsstring \<Rightarrow> jsval \<Rightarrow> world \<Rightarrow> (exn + jsval) \<times> world" where
  "call_api e tag base extract url timeout w =
     (case encodeURIComponent url of
        Inl error \<Rightarrow> (Inl error, w)
      | Inr encoded \<Rightarrow>
          (case fetch e (api_request (base @ encoded) timeout) w of
             (Rejects error, w') \<Rightarrow> (Inl error, w')
           | (Resolves response, w') \<Rightarrow>
               if \<not> ok response then
                 (Inl (Error (tag @ ascii '' HTTP '' @ decimal (int (status response)))), w')
               else (case json response of
                       Inl error \<Rightarrow> (Inl error, w')
                     | Inr data \<Rightarrow> extract data w')))"

definition schema_error :: "jsstring \<Rightarrow> exn" where
  "schema_error tag = Error (tag @ format_error_suffix)"

definition extract1 :: "env \<Rightarrow> jsval \<Rightarrow> world \<Rightarrow> (exn + jsval) \<times> world" where
  "extract1 e data w =
     (if nullish data then (Inl (Engine ReadOfNullish), w)
      else if truthy (js_or (propOf data (ascii ''url'')) (propOf data (ascii ''videoUrl''))) then
        (case Date_now e w of
           (now, w') \<Rightarrow>
             (Inr (JObj
                [(ascii ''title'',
                    js_or (js_or (propOf data (ascii ''title'')) (propOf data (ascii ''desc'')))
                      (JStr default_title)),
                 (ascii ''downloadUrl'',
                    js_or (propOf data (ascii ''url'')) (propOf data (ascii ''videoUrl''))),
                 (ascii ''cover'',
                    js_or (propOf data (ascii ''cover'')) (propOf data (ascii ''coverUrl''))),
                 (ascii ''author'',
                    js_or (js_or (propOf data (ascii ''author'')) (propOf data (ascii ''nickname'')))
                      (JStr [])),
                 (ascii ''duration'', js_or (propOf data (ascii ''duration'')) (JNum (Num 0))),
                 (ascii ''filename'', JStr (generated_filename now))]), w'))
      else (Inl (schema_error (ascii ''API1'')), w))"

definition extract2 :: "env \<Rightarrow> jsval \<Rightarrow> world \<Rightarrow> (exn + jsval) \<times> world" where
  "extract2 e data w =
     (if nullish data then (Inl (Engine ReadOfNullish), w)
      else if truthy (propOf data (ascii ''nwm_video_url'')) then
        (case Date_now e w of
           (now, w') \<Rightarrow>
             (Inr (JObj
                [(ascii ''title'', js_or (propOf data (ascii ''desc'')) (JStr default_title)),
                 (ascii ''downloadUrl'', propOf data (ascii ''nwm_video_url'')),
                 (ascii ''cover'', propOf data (ascii ''cover_url'')),
                 (ascii ''author'',
                    js_or (opt_prop (propOf data (ascii ''author'')) (ascii ''nickname''))
                      (JStr [])),
                 (ascii ''duration'', js_or (propOf data (ascii ''duration'')) (JNum (Num 0))),
                 (ascii ''filename'', JStr (generated_filename now))]), w'))
      else (Inl (schema_error (ascii ''API2'')), w))"

definition extract3 :: "env \<Rightarrow> jsval \<Rightarrow> world \<Rightarrow> (exn + jsval) \<times> world" where
  "extract3 e data w =
     (if nullish data then (Inl (Engine ReadOfNullish), w)
      else if propOf data (ascii ''code'') = JNum (Num 200) \<and> truthy (propOf data (ascii ''url''))
      then
        (case Date_now e w of
           (now, w') \<Rightarrow>
             (Inr (JObj
                [(ascii ''title'', js_or (propOf data (ascii ''title'')) (JStr default_title)),
                 (ascii ''downloadUrl'', propOf data (ascii ''url'')),
                 (ascii ''cover'', js_or (propOf data (ascii ''cover'')) (JStr [])),
                 (ascii ''author'', js_or (propOf data (ascii ''author'')) (JStr [])),
                 (ascii ''duration'', JNum (Num 0)),
                 (ascii ''filename'', JStr (generated_filename now))]), w'))
      else (Inl (schema_error (ascii ''API3'')), w))"

section \<open>Notions of the specification\<close>

text \<open>
  An adapter attempt fails when it throws or when what it returns does not pass the
  orchestrator's test. \<open>all_fail\<close> runs the parsers in order, each in the world the
  previous one left, and says that every attempt fails.
\<close>

definition failed :: "exn + jsval \<Rightarrow> bool" where
  "failed res = (case res of Inl error \<Rightarrow> True | Inr result \<Rightarrow> \<not> usable result)"

fun all_fail :: "'w parser list \<Rightarrow> jsstring \<Rightarrow> jsval \<Rightarrow> 'w \<Rightarrow> bool" where
  "all_fail [] url timeout w = True"
| "all_fail (parser # parsers) url timeout w =
     (case parser url timeout w of
        (res, w') \<Rightarrow> failed res \<and> all_fail parsers url timeout w')"

text \<open>
  A call counter around a parser: the world is paired with a list of counts, and a call
  of the \<open>i\<close>-th parser adds one at position \<open>i\<close>.
\<close>

definition counted :: "nat \<Rightarrow> 'w parser \<Rightarrow> ('w \<times> nat list) parser" where
  "counted i parser url timeout =
     (\<lambda>(w, calls). case parser url timeout w of
                      (res, w') \<Rightarrow> (res, (w', calls[i := Suc (calls ! i)])))"

text \<open>
  The scheme of a URL: the text before the first colon, compared without regard to the
  case of ASCII letters.
\<close>

definition lower :: "jschar \<Rightarrow> jschar" where
  "lower c = (if 0x41 \<le> c \<and> c \<le> 0x5A then c + 0x20 else c)"

definition url_scheme :: "jsstring \<Rightarrow> jsstring" where
  "url_scheme u = map lower (takeWhile (\<lambda>c. c \<noteq> 0x3A) u)"

definition http_scheme :: "jsstring \<Rightarrow> bool" where
  "http_scheme u \<longleftrightarrow> url_scheme u = ascii ''http'' \<or> url_scheme u = ascii ''https''"

text \<open>The requests a run from world \<open>w\<close> to world \<open>w'\<close> has sent.\<close>

definition new_requests :: "world \<Rightarrow> world \<Rightarrow> request list" where
  "new_requests w w' = drop (length (fetch_log w)) (fetch_log w')"

definition sends_only :: "jsval \<Rightarrow> world \<Rightarrow> world \<Rightarrow> bool" where
  "sends_only t w w' \<longleftrightarrow>
     (\<exists>rs. fetch_log w' = fetch_log w @ rs \<and> (\<forall>r \<in> set rs. fetch_timeout r = t))"

section \<open>Stubs and sample environments\<close>

definition throwing :: "exn \<Rightarrow> 'w parser" where
  "throwing error url timeout w = (Inl error, w)"

definition returning :: "jsval \<Rightarrow> 'w parser" where
  "returning result url timeout w = (Inr result, w)"

definition test_clock :: "nat \<Rightarrow> int" where
  "test_clock n = 1700000000000 + int n"

definition test_env :: "(request \<Rightarrow> fetch_outcome) \<Rightarrow> env" where
  "test_env f = \<lparr>net = f, clock = test_clock, engine_message = (\<lambda>f. ascii ''TypeError'')\<rparr>"

text \<open>A network that answers every request with the given status and JSON body.\<close>

definition answer :: "nat \<Rightarrow> jsval \<Rightarrow> request \<Rightarrow> fetch_outcome" where
  "answer code body r = Resolves \<lparr>status = code, final_url = fetch_url r, json = Inr body\<rparr>"

text \<open>A network on which every request fails.\<close>

definition unreachable :: "request \<Rightarrow> fetch_outcome" where
  "unreachable r = Rejects (Host (ascii ''fetch failed''))"

text \<open>A network on which only the second adapter's service answers.\<close>

definition only_api2 :: "jsval \<Rightarrow> request \<Rightarrow> fetch_outcome" where
  "only_api2 body r =
     (if startsWith (fetch_url r) (ascii ''https://api.douyin.wtf/'') then answer 200 body r
      else unreachable r)"

definition w0 :: world where
  "w0 = \<lparr>fetch_log = [], clock_reads = 0\<rparr>"

definition page_url :: jsstring where
  "page_url = ascii ''https://www.douyin.com/video/1''"

definition short_url :: jsstring where
  "short_url = ascii ''https://v.douyin.com/abc/''"

definition cdn_url :: jsstring where
  "cdn_url = ascii ''https://cdn.example/v.mp4''"

definition body_url :: "jsstring \<Rightarrow> jsval" where
  "body_url u = JObj [(ascii ''url'', JStr u), (ascii ''title'', JStr (ascii ''T''))]"

definition body_nwm :: jsval where
  "body_nwm = JObj [(ascii ''nwm_video_url'', JStr cdn_url)]"

definition body_code :: "rat \<Rightarrow> jsval" where
  "body_code n = JObj [(ascii ''code'', JNum (Num n)), (ascii ''url'', JStr cdn_url)]"

definition record_url :: "jsstring \<Rightarrow> jsval" where
  "record_url u = JObj
     [(ascii ''title'', JStr (ascii ''T'')),
      (ascii ''downloadUrl'', JStr u),
      (ascii ''cover'', JUndefined),
      (ascii ''author'', JStr []),
      (ascii ''duration'', JNum (Num 0)),
      (ascii ''filename'', JStr (ascii ''douyin_1700000000000.mp4''))]"

definition record_nwm :: jsval where
  "record_nwm = JObj
     [(ascii ''title'', JStr default_title),
      (ascii ''downloadUrl'', JStr cdn_url),
      (ascii ''cover'', JUndefined),
      (ascii ''author'', JStr []),
      (ascii ''duration'', JNum (Num 0)),
      (ascii ''filename'', JStr (ascii ''douyin_1700000000000.mp4''))]"

definition outcome_for :: "jsstring \<Rightarrow> outcome" where
  "outcome_for u =
     \<lparr>name = JStr (ascii ''T''),
      files = [\<lparr>file_name = ascii ''douyin_1700000000000.mp4'', file_size = JNum (Num 0),
                req = \<lparr>req_url = JStr u, req_headers = download_headers\<rparr>\<rparr>],
      extra = \<lparr>cover = JUndefined, author = JStr [], duration = JNum (Num 0),
               platform = ascii ''douyin''\<rparr>\<rparr>"


definition no_settings :: ctx where
  "no_settings = \<lparr>ctx_req_url = page_url, ctx_settings = JUndefined\<rparr>"

definition zero_timeout :: ctx where
  "zero_timeout =
     \<lparr>ctx_req_url = short_url, ctx_settings = JObj [(ascii ''timeout'', JNum (Num 0))]\<rparr>"

section \<open>Properties\<close>

subsection \<open>The adapters are instances of the shared form\<close>

lemma tag_http:
  "ascii ''API1'' @ ascii '' HTTP '' @ x = ascii ''API1 HTTP '' @ x"
  "ascii ''API2'' @ ascii '' HTTP '' @ x = ascii ''API2 HTTP '' @ x"
  "ascii ''API3'' @ ascii '' HTTP '' @ x = ascii ''API3 HTTP '' @ x"
  by (simp_all add: ascii_def)

lemma parseWithAPI1_factored:
  "parseWithAPI1 e =
     call_api e (ascii ''API1'') (ascii ''https://api.jiexi.top/?url='') (extract1 e)"
  by (intro ext)
     (simp add: parseWithAPI1_def call_api_def extract1_def schema_error_def tag_http
        split: sum.splits fetch_outcome.splits prod.splits)

lemma parseWithAPI2_factored:
  "parseWithAPI2 e =
     call_api e (ascii ''API2'') (ascii ''https://api.douyin.wtf/api?url='') (extract2 e)"
  by (intro ext)
     (simp add: parseWithAPI2_def call_api_def extract2_def schema_error_def tag_http
        split: sum.splits fetch_outcome.splits prod.splits)

lemma parseWithAPI3_factored:
  "parseWithAPI3 e =
     call_api e (ascii ''API3'') (ascii ''https://tenapi.cn/douyin/?url='') (extract3 e)"
  by (intro ext)
     (simp add: parseWithAPI3_def call_api_def extract3_def schema_error_def tag_http
        split: sum.splits fetch_outcome.splits prod.splits)

subsection \<open>ASCII literals\<close>

lemma of_char_lt: "(of_char c :: nat) < 256"
  by (cases c) simp

lemma unat_of_char: "unat (of_nat (of_char c) :: jschar) = of_char c"
proof -
  have "(of_char c :: nat) < 65536"
    using of_char_lt [of c] by linarith
  then show ?thesis
    by (simp add: unat_of_nat)
qed

lemma of_char_word_inj:
  "(of_nat (of_char c) :: jschar) = of_nat (of_char d) \<longleftrightarrow> c = d"
proof
  assume "(of_nat (of_char c) :: jschar) = of_nat (of_char d)"
  then have "unat (of_nat (of_char c) :: jschar) = unat (of_nat (of_char d) :: jschar)"
    by simp
  then have "(of_char c :: nat) = of_char d"
    by (simp only: unat_of_char)
  then show "c = d" by simp
qed simp

lemma ascii_eq_iff: "ascii a = ascii b \<longleftrightarrow> a = b"
proof (induction a arbitrary: b)
  case Nil
  show ?case by (cases b) (simp_all add: ascii_def)
next
  case (Cons x xs)
  show ?case
  proof (cases b)
    case Nil
    then show ?thesis by (simp add: ascii_def)
  next
    case (Cons y ys)
    with Cons.IH [of ys] show ?thesis
      by (simp add: ascii_def of_char_word_inj)
  qed
qed

lemma ascii_eq_Nil: "ascii a = [] \<longleftrightarrow> a = []"
  by (simp add: ascii_def)

lemma ascii_append: "ascii (a @ b) = ascii a @ ascii b"
  by (simp add: ascii_def)

subsection \<open>sanitizeFilename\<close>

lemma replace_class_illegal: "replace_class illegalChar [0x5F] s = substitute_illegal s"
  by (induction s) (simp_all add: replace_class_def substitute_illegal_def)

lemma collapse_from_True:
  "collapse_from True s = collapse_from False (dropWhile isWhiteSpace s)"
  by (induction s) simp_all

lemma replace_ws_runs_collapse: "replace_ws_runs [0x20] s = collapse_from False s"
proof (induction "[0x20 :: jschar]" s rule: replace_ws_runs.induct)
  case 1
  show ?case by simp
next
  case (2 c cs)
  show ?case
  proof (cases "isWhiteSpace c")
    case True
    with 2 show ?thesis by (simp add: collapse_from_True)
  next
    case False
    with 2 show ?thesis by simp
  qed
qed

lemma sanitizeFilename_spec: "sanitizeFilename s = spec_sanitize s"
  by (simp add: sanitizeFilename_def spec_sanitize_def substring0_def
      replace_class_illegal replace_ws_runs_collapse collapse_whitespace_def)

lemma illegalChar_not_ws: "illegalChar c \<Longrightarrow> \<not> isWhiteSpace c"
  unfolding illegalChar_def insert_iff empty_iff
  by (elim disjE) (simp_all add: isWhiteSpace_def)

lemma underscore_not_ws: "\<not> isWhiteSpace 0x5F"
  by (simp add: isWhiteSpace_def)

lemma space_ws: "isWhiteSpace 0x20"
  by (simp add: isWhiteSpace_def)

lemma collapse_from_no_ws:
  "\<forall>c \<in> set s. \<not> isWhiteSpace c \<Longrightarrow> collapse_from b s = s"
  by (induction s arbitrary: b) simp_all

lemma dropWhile_no_ws: "\<forall>c \<in> set s. \<not> isWhiteSpace c \<Longrightarrow> dropWhile isWhiteSpace s = s"
  by (cases s) simp_all

lemma trim_no_ws: "\<forall>c \<in> set s. \<not> isWhiteSpace c \<Longrightarrow> trim s = s"
  by (simp add: trim_def dropWhile_no_ws)

lemma substitute_no_ws:
  "\<forall>c \<in> set s. \<not> isWhiteSpace c \<Longrightarrow> \<forall>c \<in> set (substitute_illegal s). \<not> isWhiteSpace c"
  by (induction s) (simp_all add: substitute_illegal_def underscore_not_ws)

lemma sanitize_no_ws:
  assumes "\<forall>c \<in> set s. \<not> isWhiteSpace c"
  shows "sanitizeFilename s = take 200 (substitute_illegal s)"
  using substitute_no_ws [OF assms]
  by (simp add: sanitizeFilename_spec spec_sanitize_def collapse_whitespace_def
      collapse_from_no_ws trim_no_ws)

lemma substitute_all_ws:
  "\<forall>c \<in> set s. isWhiteSpace c \<Longrightarrow> substitute_illegal s = s"
  by (induction s) (auto simp: substitute_illegal_def dest: illegalChar_not_ws)

lemma collapse_from_all_ws:
  "\<forall>c \<in> set s. isWhiteSpace c \<Longrightarrow>
   collapse_from b s = (if b \<or> s = [] then [] else [0x20])"
  by (induction s arbitrary: b) simp_all

lemma sanitize_all_ws:
  assumes "\<forall>c \<in> set s. isWhiteSpace c"
  shows "sanitizeFilename s = []"
  using assms
  by (simp add: sanitizeFilename_spec spec_sanitize_def collapse_whitespace_def
      substitute_all_ws collapse_from_all_ws trim_def space_ws)

lemma sanitize_example:
  "sanitizeFilename
     (ascii ''a<b>c:d'' @ [0x22] @ ascii ''e/f'' @ [0x5C] @ ascii ''g|h?i*j   k'')
   = ascii ''a_b_c_d_e_f_g_h_i_j k''"
  by (simp add: sanitizeFilename_def substring0_def trim_def replace_class_def
      illegalChar_def isWhiteSpace_def ascii_def)

text \<open>
  Claim C4, amended. For every input string, \<open>sanitizeFilename\<close> replaces each of the
  nine characters \<^verbatim>\<open>< > : " / \ | ? *\<close> by an underscore, collapses every run of
  whitespace to one space, trims whitespace at both ends and keeps at most the first 200
  code units; the sample input of the specification gives \<^verbatim>\<open>a_b_c_d_e_f_g_h_i_j k\<close>; and
  an input of 300 characters none of which is whitespace gives exactly 200 characters.
\<close>

theorem sanitizeFilename_steps:
  "sanitizeFilename s = take 200 (trim (collapse_whitespace (substitute_illegal s)))
   \<and> length (sanitizeFilename s) \<le> 200
   \<and> sanitizeFilename
        (ascii ''a<b>c:d'' @ [0x22] @ ascii ''e/f'' @ [0x5C] @ ascii ''g|h?i*j   k'')
      = ascii ''a_b_c_d_e_f_g_h_i_j k''
   \<and> (length s = 300 \<and> (\<forall>c \<in> set s. \<not> isWhiteSpace c)
        \<longrightarrow> length (sanitizeFilename s) = 200)"
proof (intro conjI impI)
  show "sanitizeFilename s = take 200 (trim (collapse_whitespace (substitute_illegal s)))"
    by (simp add: sanitizeFilename_spec spec_sanitize_def)
  then show "length (sanitizeFilename s) \<le> 200"
    by simp
  show "sanitizeFilename
        (ascii ''a<b>c:d'' @ [0x22] @ ascii ''e/f'' @ [0x5C] @ ascii ''g|h?i*j   k'')
      = ascii ''a_b_c_d_e_f_g_h_i_j k''"
    by (rule sanitize_example)
next
  assume "length s = 300 \<and> (\<forall>c \<in> set s. \<not> isWhiteSpace c)"
  then show "length (sanitizeFilename s) = 200"
    by (simp add: sanitize_no_ws substitute_illegal_def)
qed

theorem sanitizeFilename_steps_witness:
  "length (replicate 300 (0x61 :: jschar)) = 300
   \<and> length (sanitizeFilename (replicate 300 0x61)) = 200"
proof -
  have "\<forall>c \<in> set (replicate 300 (0x61 :: jschar)). \<not> isWhiteSpace c"
    by (simp add: isWhiteSpace_def)
  moreover have "length (replicate 300 (0x61 :: jschar)) = 300"
    by simp
  ultimately show ?thesis
    using sanitizeFilename_steps [of "replicate 300 0x61"] by blast
qed

text \<open>
  The claim as first stated, for an arbitrary input of 300 characters, fails: 300 spaces
  are one run, collapsed to one space and trimmed away.
\<close>

theorem sanitizeFilename_300_counterexample:
  "length (replicate 300 (0x20 :: jschar)) = 300
   \<and> length (sanitizeFilename (replicate 300 0x20)) \<noteq> 200"
  by (simp add: sanitize_all_ws space_ws)

subsection \<open>The orchestrator\<close>

lemma loop_step_failed:
  "parser url t w = (res, w1) \<Longrightarrow> failed res \<Longrightarrow>
   parseWithFallback_loop (parser # parsers) url t w = parseWithFallback_loop parsers url t w1"
  by (cases res) (simp_all add: failed_def)

lemma loop_step_usable:
  "parser url t w = (Inr r, w1) \<Longrightarrow> usable r \<Longrightarrow>
   parseWithFallback_loop (parser # parsers) url t w = (Inr r, w1)"
  by simp

lemma loop_error_iff:
  "(\<exists>error w'. parseWithFallback_loop ps url t w = (Inl error, w')) \<longleftrightarrow> all_fail ps url t w"
proof (induction ps arbitrary: w)
  case Nil
  show ?case by simp
next
  case (Cons p ps)
  obtain res w1 where p: "p url t w = (res, w1)"
    by (cases "p url t w")
  show ?case
  proof (cases "failed res")
    case True
    with p Cons.IH [of w1] show ?thesis
      by (simp add: loop_step_failed del: parseWithFallback_loop.simps)
  next
    case False
    then obtain r where "res = Inr r" "usable r"
      by (cases res) (simp_all add: failed_def)
    with p False show ?thesis by simp
  qed
qed

lemma loop_error_is_aggregate:
  "parseWithFallback_loop ps url t w = (Inl error, w') \<Longrightarrow> error = Error all_failed_message"
proof (induction ps arbitrary: w)
  case Nil
  then show ?case by simp
next
  case (Cons p ps)
  obtain res w1 where p: "p url t w = (res, w1)"
    by (cases "p url t w")
  show ?case
  proof (cases "failed res")
    case True
    with p Cons.prems have "parseWithFallback_loop ps url t w1 = (Inl error, w')"
      by (simp add: loop_step_failed del: parseWithFallback_loop.simps)
    then show ?thesis by (rule Cons.IH)
  next
    case False
    then obtain r where "res = Inr r" "usable r"
      by (cases res) (simp_all add: failed_def)
    with p Cons.prems show ?thesis by simp
  qed
qed

lemma loop_result_usable:
  "parseWithFallback_loop ps url t w = (Inr r, w') \<Longrightarrow> usable r"
proof (induction ps arbitrary: w)
  case Nil
  then show ?case by simp
next
  case (Cons p ps)
  obtain res w1 where p: "p url t w = (res, w1)"
    by (cases "p url t w")
  show ?case
  proof (cases "failed res")
    case True
    with p Cons.prems have "parseWithFallback_loop ps url t w1 = (Inr r, w')"
      by (simp add: loop_step_failed del: parseWithFallback_loop.simps)
    then show ?thesis by (rule Cons.IH)
  next
    case False
    then obtain r' where "res = Inr r'" "usable r'"
      by (cases res) (simp_all add: failed_def)
    with p Cons.prems show ?thesis by simp
  qed
qed

lemma counted_apply:
  "a url t w = (res, w1) \<Longrightarrow>
   counted i a url t (w, calls) = (res, (w1, calls[i := Suc (calls ! i)]))"
  by (simp add: counted_def)

text \<open>
  Claim C1. Whatever the three adapters do: if the first returns a record that passes the
  test, the orchestrator returns that record in the world the first adapter left, and the
  call counts of the second and third are zero; if the first fails and the second returns
  such a record, the orchestrator returns the second's record and the call count of the
  third is zero. The same holds of \<open>parseWithFallback\<close> with its own three adapters.
\<close>

theorem parseWithFallback_first_success:
  fixes a1 a2 a3 :: "'w parser"
  shows
  "(a1 url t w = (Inr r, w1) \<and> usable r \<longrightarrow>
      parseWithFallback_loop [a1, a2, a3] url t w = (Inr r, w1)
      \<and> parseWithFallback_loop [counted 0 a1, counted 1 a2, counted 2 a3] url t (w, [0, 0, 0])
          = (Inr r, (w1, [1, 0, 0])))
   \<and> (a1 url t w = (res1, w1) \<and> failed res1 \<and> a2 url t w1 = (Inr r, w2) \<and> usable r \<longrightarrow>
      parseWithFallback_loop [a1, a2, a3] url t w = (Inr r, w2)
      \<and> parseWithFallback_loop [counted 0 a1, counted 1 a2, counted 2 a3] url t (w, [0, 0, 0])
          = (Inr r, (w2, [1, 1, 0])))
   \<and> (parseWithAPI1 e url t v = (Inr r, v1) \<and> usable r \<longrightarrow>
      parseWithFallback e url t v = (Inr r, v1))
   \<and> (parseWithAPI1 e url t v = (res1, v1) \<and> failed res1
        \<and> parseWithAPI2 e url t v1 = (Inr r, v2) \<and> usable r \<longrightarrow>
      parseWithFallback e url t v = (Inr r, v2))"
proof (intro conjI impI)
  assume h: "a1 url t w = (Inr r, w1) \<and> usable r"
  then show "parseWithFallback_loop [a1, a2, a3] url t w = (Inr r, w1)"
    by simp
  from h show "parseWithFallback_loop [counted 0 a1, counted 1 a2, counted 2 a3] url t
      (w, [0, 0, 0]) = (Inr r, (w1, [1, 0, 0]))"
    by (simp add: counted_def)
next
  assume h: "a1 url t w = (res1, w1) \<and> failed res1 \<and> a2 url t w1 = (Inr r, w2) \<and> usable r"
  then show "parseWithFallback_loop [a1, a2, a3] url t w = (Inr r, w2)"
    by (simp add: loop_step_failed loop_step_usable del: parseWithFallback_loop.simps)
  from h have c1: "counted 0 a1 url t (w, [0, 0, 0]) = (res1, (w1, [1, 0, 0]))"
    by (simp add: counted_def)
  from h have c2: "counted 1 a2 url t (w1, [1, 0, 0]) = (Inr r, (w2, [1, 1, 0]))"
    by (simp add: counted_def)
  have "parseWithFallback_loop [counted 0 a1, counted 1 a2, counted 2 a3] url t (w, [0, 0, 0])
      = parseWithFallback_loop [counted 1 a2, counted 2 a3] url t (w1, [1, 0, 0])"
    by (rule loop_step_failed [where parser = "counted 0 a1" and res = res1])
       (use c1 h in simp_all)
  also have "\<dots> = (Inr r, (w2, [1, 1, 0]))"
    by (rule loop_step_usable [where parser = "counted 1 a2"]) (use c2 h in simp_all)
  finally show "parseWithFallback_loop [counted 0 a1, counted 1 a2, counted 2 a3] url t
      (w, [0, 0, 0]) = (Inr r, (w2, [1, 1, 0]))" .
next
  assume "parseWithAPI1 e url t v = (Inr r, v1) \<and> usable r"
  then show "parseWithFallback e url t v = (Inr r, v1)"
    by (simp add: parseWithFallback_def)
next
  assume "parseWithAPI1 e url t v = (res1, v1) \<and> failed res1
        \<and> parseWithAPI2 e url t v1 = (Inr r, v2) \<and> usable r"
  then show "parseWithFallback e url t v = (Inr r, v2)"
    by (simp add: parseWithFallback_def loop_step_failed loop_step_usable
        del: parseWithFallback_loop.simps)
qed

subsection \<open>Evaluating the sample environments\<close>

lemma encode_page_url:
  "encodeURIComponent page_url = Inr (ascii ''https%3A%2F%2Fwww.douyin.com%2Fvideo%2F1'')"
  by (simp add: page_url_def encodeURIComponent.simps uriUnescaped_def escape_def utf8_def
      hexDigit_def ascii_def)

lemma decimal_test_clock: "decimal (test_clock 0) = ascii ''1700000000000''"
  by (simp add: test_clock_def decimal_def decimal_nat.simps ascii_def)

lemma cdn_url_nonempty: "cdn_url \<noteq> []"
  by (simp add: cdn_url_def ascii_def)

lemma page_url_not_short: "\<not> includes_str page_url (ascii ''v.douyin.com'')"
  by (simp add: page_url_def ascii_def startsWith_def)

lemma short_url_short: "includes_str short_url (ascii ''v.douyin.com'')"
  by (simp add: short_url_def ascii_def startsWith_def)

lemma generated_filename_test:
  "generated_filename (test_clock 0) = ascii ''douyin_1700000000000.mp4''"
  by (simp add: generated_filename_def decimal_test_clock ascii_append [symmetric])

lemmas eval_defs =
  call_api_def fetch_def test_env_def answer_def unreachable_def ok_def nullish_def js_or_def
  opt_prop_def ascii_eq_iff ascii_eq_Nil Date_now_def w0_def generated_filename_test
  encode_page_url

lemma api1_answer:
  "u \<noteq> [] \<Longrightarrow>
   parseWithAPI1 (test_env (answer 200 (body_url u))) page_url t w0
   = (Inr (record_url u),
      \<lparr>fetch_log = [api_request (ascii ''https://api.jiexi.top/?url='' @
           ascii ''https%3A%2F%2Fwww.douyin.com%2Fvideo%2F1'') t], clock_reads = 1\<rparr>)"
  by (simp add: parseWithAPI1_factored extract1_def eval_defs body_url_def record_url_def)

lemma only_api2_api1:
  "only_api2 b (api_request (ascii ''https://api.jiexi.top/?url='' @ q) t)
   = Rejects (Host (ascii ''fetch failed''))"
  by (simp add: only_api2_def api_request_def startsWith_def unreachable_def ascii_def)

lemma only_api2_api2:
  "only_api2 b (api_request (ascii ''https://api.douyin.wtf/api?url='' @ q) t)
   = Resolves \<lparr>status = 200, final_url = ascii ''https://api.douyin.wtf/api?url='' @ q,
       json = Inr b\<rparr>"
  by (simp add: only_api2_def api_request_def startsWith_def answer_def ascii_def)

lemma api1_only_api2:
  "parseWithAPI1 (test_env (only_api2 body_nwm)) page_url t w0
   = (Inl (Host (ascii ''fetch failed'')),
      \<lparr>fetch_log = [api_request (ascii ''https://api.jiexi.top/?url='' @
           ascii ''https%3A%2F%2Fwww.douyin.com%2Fvideo%2F1'') t], clock_reads = 0\<rparr>)"
  by (simp add: parseWithAPI1_factored eval_defs only_api2_api1)

lemma api2_only_api2:
  "parseWithAPI2 (test_env (only_api2 body_nwm)) page_url t
     \<lparr>fetch_log = [r1], clock_reads = 0\<rparr>
   = (Inr record_nwm,
      \<lparr>fetch_log = [r1, api_request (ascii ''https://api.douyin.wtf/api?url='' @
           ascii ''https%3A%2F%2Fwww.douyin.com%2Fvideo%2F1'') t], clock_reads = 1\<rparr>)"
  by (simp add: parseWithAPI2_factored extract2_def eval_defs only_api2_api2
      body_nwm_def record_nwm_def cdn_url_nonempty default_title_def)

lemma usable_record_url: "u \<noteq> [] \<Longrightarrow> usable (record_url u)"
  by (simp add: usable_def record_url_def ascii_eq_iff)

lemma usable_record_nwm: "usable record_nwm"
  by (simp add: usable_def record_nwm_def ascii_eq_iff cdn_url_nonempty)

theorem parseWithFallback_first_success_witness:
  "parseWithFallback_loop
     [counted 0 (returning (record_url cdn_url)), counted 1 (returning JNull),
      counted 2 (returning JNull)]
     page_url (JNum (Num 30000)) ((), [0, 0, 0])
   = (Inr (record_url cdn_url), ((), [1, 0, 0]))
   \<and> parseWithFallback_loop
     [counted 0 (throwing (Host [])), counted 1 (returning (record_url cdn_url)),
      counted 2 (returning JNull)]
     page_url (JNum (Num 30000)) ((), [0, 0, 0])
   = (Inr (record_url cdn_url), ((), [1, 1, 0]))
   \<and> parseWithFallback (test_env (only_api2 body_nwm)) page_url (JNum (Num 30000)) w0
   = (Inr record_nwm,
      \<lparr>fetch_log =
         [api_request (ascii ''https://api.jiexi.top/?url='' @
            ascii ''https%3A%2F%2Fwww.douyin.com%2Fvideo%2F1'') (JNum (Num 30000)),
          api_request (ascii ''https://api.douyin.wtf/api?url='' @
            ascii ''https%3A%2F%2Fwww.douyin.com%2Fvideo%2F1'') (JNum (Num 30000))],
       clock_reads = 1\<rparr>)"
proof (intro conjI)
  have u: "usable (record_url cdn_url)"
    by (simp add: usable_record_url cdn_url_nonempty)
  show "parseWithFallback_loop
     [counted 0 (returning (record_url cdn_url)), counted 1 (returning JNull),
      counted 2 (returning JNull)]
     page_url (JNum (Num 30000)) ((), [0, 0, 0])
   = (Inr (record_url cdn_url), ((), [1, 0, 0]))"
    using u parseWithFallback_first_success
      [where ?a1.0 = "returning (record_url cdn_url)" and ?a2.0 = "returning JNull"
         and ?a3.0 = "returning JNull" and url = page_url and t = "JNum (Num 30000)"
         and w = "()" and ?w1.0 = "()" and r = "record_url cdn_url"]
    by (simp add: returning_def)
  show "parseWithFallback_loop
     [counted 0 (throwing (Host [])), counted 1 (returning (record_url cdn_url)),
      counted 2 (returning JNull)]
     page_url (JNum (Num 30000)) ((), [0, 0, 0])
   = (Inr (record_url cdn_url), ((), [1, 1, 0]))"
    using u parseWithFallback_first_success
      [where ?a1.0 = "throwing (Host [])" and ?a2.0 = "returning (record_url cdn_url)"
         and ?a3.0 = "returning JNull" and url = page_url and t = "JNum (Num 30000)"
         and w = "()" and ?w1.0 = "()" and ?w2.0 = "()" and ?res1.0 = "Inl (Host [])"
         and r = "record_url cdn_url"]
    by (simp add: returning_def throwing_def failed_def)
  show "parseWithFallback (test_env (only_api2 body_nwm)) page_url (JNum (Num 30000)) w0
   = (Inr record_nwm,
      \<lparr>fetch_log =
         [api_request (ascii ''https://api.jiexi.top/?url='' @
            ascii ''https%3A%2F%2Fwww.douyin.com%2Fvideo%2F1'') (JNum (Num 30000)),
          api_request (ascii ''https://api.douyin.wtf/api?url='' @
            ascii ''https%3A%2F%2Fwww.douyin.com%2Fvideo%2F1'') (JNum (Num 30000))],
       clock_reads = 1\<rparr>)"
  proof -
    note real_case = parseWithFallback_first_success
      [where e = "test_env (only_api2 body_nwm)" and url = page_url
         and t = "JNum (Num 30000)" and v = w0
         and ?res1.0 = "Inl (Host (ascii ''fetch failed''))" and r = record_nwm
         and ?v1.0 = "\<lparr>fetch_log = [api_request (ascii ''https://api.jiexi.top/?url='' @
            ascii ''https%3A%2F%2Fwww.douyin.com%2Fvideo%2F1'') (JNum (Num 30000))],
            clock_reads = 0\<rparr>"
         and ?v2.0 = "\<lparr>fetch_log =
         [api_request (ascii ''https://api.jiexi.top/?url='' @
            ascii ''https%3A%2F%2Fwww.douyin.com%2Fvideo%2F1'') (JNum (Num 30000)),
          api_request (ascii ''https://api.douyin.wtf/api?url='' @
            ascii ''https%3A%2F%2Fwww.douyin.com%2Fvideo%2F1'') (JNum (Num 30000))],
       clock_reads = 1\<rparr>",
       THEN conjunct2, THEN conjunct2, THEN conjunct2]
    show ?thesis
      by (rule real_case [THEN mp])
         (simp add: api1_only_api2 api2_only_api2 failed_def usable_record_nwm)
  qed
qed

text \<open>
  Claim C2. The orchestrator throws exactly when every adapter, run in order, throws or
  returns something whose download URL is empty or missing; the error is then the one
  aggregate error. A throwing adapter and one that returns an empty download URL are
  treated alike: the loop goes on with the remaining adapters.
\<close>

theorem parseWithFallback_fails_iff:
  "((\<exists>error w'. parseWithFallback_loop ps url t w = (Inl error, w')) \<longleftrightarrow> all_fail ps url t w)
   \<and> (\<forall>error w'. parseWithFallback_loop ps url t w = (Inl error, w')
         \<longrightarrow> error = Error all_failed_message)
   \<and> (p url t w = (Inl thrown, w1) \<longrightarrow>
         parseWithFallback_loop (p # ps) url t w = parseWithFallback_loop ps url t w1)
   \<and> (p url t w = (Inr r, w1) \<and> \<not> usable r \<longrightarrow>
         parseWithFallback_loop (p # ps) url t w = parseWithFallback_loop ps url t w1)
   \<and> ((\<exists>error v'. parseWithFallback e url t v = (Inl error, v'))
         \<longleftrightarrow> all_fail [parseWithAPI1 e, parseWithAPI2 e, parseWithAPI3 e] url t v)
   \<and> (\<forall>error v'. parseWithFallback e url t v = (Inl error, v')
         \<longrightarrow> error = Error all_failed_message)"
proof (intro conjI allI impI)
  show "(\<exists>error w'. parseWithFallback_loop ps url t w = (Inl error, w')) \<longleftrightarrow> all_fail ps url t w"
    by (rule loop_error_iff)
  show "(\<exists>error v'. parseWithFallback e url t v = (Inl error, v'))
         \<longleftrightarrow> all_fail [parseWithAPI1 e, parseWithAPI2 e, parseWithAPI3 e] url t v"
    unfolding parseWithFallback_def by (rule loop_error_iff)
next
  fix error w'
  assume "parseWithFallback_loop ps url t w = (Inl error, w')"
  then show "error = Error all_failed_message"
    by (rule loop_error_is_aggregate)
next
  fix error v'
  assume "parseWithFallback e url t v = (Inl error, v')"
  then show "error = Error all_failed_message"
    unfolding parseWithFallback_def by (rule loop_error_is_aggregate)
next
  assume "p url t w = (Inl thrown, w1)"
  then show "parseWithFallback_loop (p # ps) url t w = parseWithFallback_loop ps url t w1"
    by simp
next
  assume "p url t w = (Inr r, w1) \<and> \<not> usable r"
  then show "parseWithFallback_loop (p # ps) url t w = parseWithFallback_loop ps url t w1"
    by simp
qed

lemma call_api_unreachable:
  "call_api (test_env unreachable) tag base ex page_url t w
   = (Inl (Host (ascii ''fetch failed'')),
      w\<lparr>fetch_log := fetch_log w @
         [api_request (base @ ascii ''https%3A%2F%2Fwww.douyin.com%2Fvideo%2F1'') t]\<rparr>)"
  by (simp add: call_api_def encode_page_url fetch_def test_env_def unreachable_def)

lemma all_fail_unreachable:
  "all_fail [parseWithAPI1 (test_env unreachable), parseWithAPI2 (test_env unreachable),
     parseWithAPI3 (test_env unreachable)] page_url t w"
  by (simp add: parseWithAPI1_factored parseWithAPI2_factored parseWithAPI3_factored call_api_unreachable
      failed_def)

theorem parseWithFallback_fails_iff_witness:
  "fst (parseWithFallback_loop
         [throwing (Host []), returning JNull,
          returning (JObj [(ascii ''downloadUrl'', JStr [])])]
         page_url JUndefined ())
   = Inl (Error all_failed_message)
   \<and> fst (parseWithFallback (test_env unreachable) page_url JUndefined w0)
   = Inl (Error all_failed_message)"
proof
  let ?ps = "[throwing (Host []), returning JNull,
          returning (JObj [(ascii ''downloadUrl'', JStr [])])] :: unit parser list"
  note T = parseWithFallback_fails_iff
    [where ps = ?ps and url = page_url and t = JUndefined and w = "()"
       and e = "test_env unreachable" and v = w0]
  have "all_fail ?ps page_url JUndefined ()"
    by (simp add: throwing_def returning_def failed_def usable_def ascii_eq_iff)
  with T obtain error w' where
    r: "parseWithFallback_loop ?ps page_url JUndefined () = (Inl error, w')"
    by blast
  with T have "error = Error all_failed_message"
    by blast
  with r show "fst (parseWithFallback_loop ?ps page_url JUndefined ())
      = Inl (Error all_failed_message)"
    by simp
  from T all_fail_unreachable [of JUndefined w0] obtain error v' where
    r: "parseWithFallback (test_env unreachable) page_url JUndefined w0 = (Inl error, v')"
    by blast
  with T have "error = Error all_failed_message"
    by blast
  with r show "fst (parseWithFallback (test_env unreachable) page_url JUndefined w0)
      = Inl (Error all_failed_message)"
    by simp
qed

subsection \<open>The adapters\<close>

lemma call_api_bad_status:
  assumes "encodeURIComponent url = Inr q"
    and "net e (api_request (base @ q) t) = Resolves resp"
    and "\<not> (200 \<le> status resp \<and> status resp \<le> 299)"
  shows "fst (call_api e tag base ex url t w)
    = Inl (Error (tag @ ascii '' HTTP '' @ decimal (int (status resp))))"
  using assms by (simp add: call_api_def fetch_def ok_def)

lemma call_api_body:
  assumes "encodeURIComponent url = Inr q"
    and "net e (api_request (base @ q) t) = Resolves resp"
    and "ok resp" and "json resp = Inr data"
  shows "call_api e tag base ex url t w
    = ex data (w\<lparr>fetch_log := fetch_log w @ [api_request (base @ q) t]\<rparr>)"
  using assms by (simp add: call_api_def fetch_def)

lemma call_api_Inr:
  assumes "call_api e tag base ex url t w = (Inr r, w')"
  shows "\<exists>q resp data. encodeURIComponent url = Inr q
      \<and> net e (api_request (base @ q) t) = Resolves resp \<and> ok resp \<and> json resp = Inr data
      \<and> ex data (w\<lparr>fetch_log := fetch_log w @ [api_request (base @ q) t]\<rparr>) = (Inr r, w')"
  using assms
  by (auto simp: call_api_def fetch_def split: sum.splits fetch_outcome.splits if_splits)

lemma extract3_Inr:
  "extract3 e data w = (Inr r, w') \<Longrightarrow>
   propOf data (ascii ''code'') = JNum (Num 200) \<and> truthy (propOf data (ascii ''url''))"
  by (simp add: extract3_def split: if_splits)

lemma extract3_bad_code:
  "\<not> nullish data \<Longrightarrow> propOf data (ascii ''code'') \<noteq> JNum (Num 200) \<Longrightarrow>
   fst (extract3 e data w) = Inl (Error (ascii ''API3'' @ format_error_suffix))"
  by (simp add: extract3_def schema_error_def)

text \<open>
  Claim C8. Each adapter, when the service answers with a status outside 200 to 299, throws
  an error whose message is the adapter's tag, \<^verbatim>\<open> HTTP \<close> and the status. The third adapter
  returns a record only when the body's \<^verbatim>\<open>code\<close> is the number 200 and its \<^verbatim>\<open>url\<close> is
  truthy; on a 2xx answer whose body has another \<^verbatim>\<open>code\<close> it throws the schema-mismatch
  error tagged \<^verbatim>\<open>API3\<close>.
\<close>

theorem adapters_check_status:
  "(encodeURIComponent url = Inr q
      \<and> net e (api_request (ascii ''https://api.jiexi.top/?url='' @ q) t) = Resolves resp
      \<and> \<not> (200 \<le> status resp \<and> status resp \<le> 299) \<longrightarrow>
    fst (parseWithAPI1 e url t w)
      = Inl (Error (ascii ''API1 HTTP '' @ decimal (int (status resp)))))
   \<and> (encodeURIComponent url = Inr q
      \<and> net e (api_request (ascii ''https://api.douyin.wtf/api?url='' @ q) t) = Resolves resp
      \<and> \<not> (200 \<le> status resp \<and> status resp \<le> 299) \<longrightarrow>
    fst (parseWithAPI2 e url t w)
      = Inl (Error (ascii ''API2 HTTP '' @ decimal (int (status resp)))))
   \<and> (encodeURIComponent url = Inr q
      \<and> net e (api_request (ascii ''https://tenapi.cn/douyin/?url='' @ q) t) = Resolves resp
      \<and> \<not> (200 \<le> status resp \<and> status resp \<le> 299) \<longrightarrow>
    fst (parseWithAPI3 e url t w)
      = Inl (Error (ascii ''API3 HTTP '' @ decimal (int (status resp)))))
   \<and> (fst (parseWithAPI3 e url t w) = Inr r \<longrightarrow>
        (\<exists>q' resp' data. encodeURIComponent url = Inr q'
           \<and> net e (api_request (ascii ''https://tenapi.cn/douyin/?url='' @ q') t)
               = Resolves resp'
           \<and> 200 \<le> status resp' \<and> status resp' \<le> 299 \<and> json resp' = Inr data
           \<and> propOf data (ascii ''code'') = JNum (Num 200)
           \<and> truthy (propOf data (ascii ''url''))))
   \<and> (encodeURIComponent url = Inr q
      \<and> net e (api_request (ascii ''https://tenapi.cn/douyin/?url='' @ q) t) = Resolves resp
      \<and> 200 \<le> status resp \<and> status resp \<le> 299 \<and> json resp = Inr body
      \<and> \<not> nullish body \<and> propOf body (ascii ''code'') \<noteq> JNum (Num 200) \<longrightarrow>
    fst (parseWithAPI3 e url t w) = Inl (Error (ascii ''API3'' @ format_error_suffix)))"
proof (intro conjI impI)
  assume "encodeURIComponent url = Inr q
      \<and> net e (api_request (ascii ''https://api.jiexi.top/?url='' @ q) t) = Resolves resp
      \<and> \<not> (200 \<le> status resp \<and> status resp \<le> 299)"
  then show "fst (parseWithAPI1 e url t w)
      = Inl (Error (ascii ''API1 HTTP '' @ decimal (int (status resp))))"
    by (simp add: parseWithAPI1_factored call_api_bad_status ascii_def)
next
  assume "encodeURIComponent url = Inr q
      \<and> net e (api_request (ascii ''https://api.douyin.wtf/api?url='' @ q) t) = Resolves resp
      \<and> \<not> (200 \<le> status resp \<and> status resp \<le> 299)"
  then show "fst (parseWithAPI2 e url t w)
      = Inl (Error (ascii ''API2 HTTP '' @ decimal (int (status resp))))"
    by (simp add: parseWithAPI2_factored call_api_bad_status ascii_def)
next
  assume "encodeURIComponent url = Inr q
      \<and> net e (api_request (ascii ''https://tenapi.cn/douyin/?url='' @ q) t) = Resolves resp
      \<and> \<not> (200 \<le> status resp \<and> status resp \<le> 299)"
  then show "fst (parseWithAPI3 e url t w)
      = Inl (Error (ascii ''API3 HTTP '' @ decimal (int (status resp))))"
    by (simp add: parseWithAPI3_factored call_api_bad_status ascii_def)
next
  assume "fst (parseWithAPI3 e url t w) = Inr r"
  then obtain w' where "parseWithAPI3 e url t w = (Inr r, w')"
    by (cases "parseWithAPI3 e url t w") simp
  then obtain q' resp' data where
    "encodeURIComponent url = Inr q'"
    "net e (api_request (ascii ''https://tenapi.cn/douyin/?url='' @ q') t) = Resolves resp'"
    "ok resp'" "json resp' = Inr data"
    "extract3 e data (w\<lparr>fetch_log := fetch_log w @
        [api_request (ascii ''https://tenapi.cn/douyin/?url='' @ q') t]\<rparr>) = (Inr r, w')"
    unfolding parseWithAPI3_factored by (blast dest: call_api_Inr)
  then show "\<exists>q' resp' data. encodeURIComponent url = Inr q'
           \<and> net e (api_request (ascii ''https://tenapi.cn/douyin/?url='' @ q') t)
               = Resolves resp'
           \<and> 200 \<le> status resp' \<and> status resp' \<le> 299 \<and> json resp' = Inr data
           \<and> propOf data (ascii ''code'') = JNum (Num 200)
           \<and> truthy (propOf data (ascii ''url''))"
    using extract3_Inr [of e data _ r w'] by (auto simp: ok_def)
next
  assume "encodeURIComponent url = Inr q
      \<and> net e (api_request (ascii ''https://tenapi.cn/douyin/?url='' @ q) t) = Resolves resp
      \<and> 200 \<le> status resp \<and> status resp \<le> 299 \<and> json resp = Inr body
      \<and> \<not> nullish body \<and> propOf body (ascii ''code'') \<noteq> JNum (Num 200)"
  then show "fst (parseWithAPI3 e url t w) = Inl (Error (ascii ''API3'' @ format_error_suffix))"
    by (simp add: parseWithAPI3_factored call_api_body ok_def extract3_bad_code)
qed

lemma decimal_404: "decimal 404 = ascii ''404''"
  by (simp add: decimal_def decimal_nat.simps ascii_def)

lemma api_request_answer:
  "net (test_env (answer code b)) (api_request u t)
   = Resolves \<lparr>status = code, final_url = u, json = Inr b\<rparr>"
  by (simp add: test_env_def answer_def api_request_def)

theorem adapters_check_status_witness:
  "fst (parseWithAPI1 (test_env (answer 404 JNull)) page_url JUndefined w0)
     = Inl (Error (ascii ''API1 HTTP 404''))
   \<and> fst (parseWithAPI2 (test_env (answer 404 JNull)) page_url JUndefined w0)
     = Inl (Error (ascii ''API2 HTTP 404''))
   \<and> fst (parseWithAPI3 (test_env (answer 404 JNull)) page_url JUndefined w0)
     = Inl (Error (ascii ''API3 HTTP 404''))
   \<and> fst (parseWithAPI3 (test_env (answer 200 (body_code 404))) page_url JUndefined w0)
     = Inl (Error (ascii ''API3'' @ format_error_suffix))
   \<and> (\<exists>data. net (test_env (answer 200 (body_code 200)))
           (api_request (ascii ''https://tenapi.cn/douyin/?url='' @
              ascii ''https%3A%2F%2Fwww.douyin.com%2Fvideo%2F1'') JUndefined)
         = Resolves \<lparr>status = 200,
             final_url = ascii ''https://tenapi.cn/douyin/?url='' @
               ascii ''https%3A%2F%2Fwww.douyin.com%2Fvideo%2F1'',
             json = Inr data\<rparr>
         \<and> propOf data (ascii ''code'') = JNum (Num 200)
         \<and> truthy (propOf data (ascii ''url'')))"
proof (intro conjI)
  note bad = adapters_check_status
    [where e = "test_env (answer 404 JNull)" and url = page_url and t = JUndefined and w = w0
       and q = "ascii ''https%3A%2F%2Fwww.douyin.com%2Fvideo%2F1''"
       and resp = "\<lparr>status = 404, final_url = u, json = Inr JNull\<rparr>" for u]
  show "fst (parseWithAPI1 (test_env (answer 404 JNull)) page_url JUndefined w0)
     = Inl (Error (ascii ''API1 HTTP 404''))"
    using bad [THEN conjunct1]
    by (simp add: encode_page_url api_request_answer decimal_404 ascii_append [symmetric])
  show "fst (parseWithAPI2 (test_env (answer 404 JNull)) page_url JUndefined w0)
     = Inl (Error (ascii ''API2 HTTP 404''))"
    using bad [THEN conjunct2, THEN conjunct1]
    by (simp add: encode_page_url api_request_answer decimal_404 ascii_append [symmetric])
  show "fst (parseWithAPI3 (test_env (answer 404 JNull)) page_url JUndefined w0)
     = Inl (Error (ascii ''API3 HTTP 404''))"
    using bad [THEN conjunct2, THEN conjunct2, THEN conjunct1]
    by (simp add: encode_page_url api_request_answer decimal_404 ascii_append [symmetric])
  show "fst (parseWithAPI3 (test_env (answer 200 (body_code 404))) page_url JUndefined w0)
     = Inl (Error (ascii ''API3'' @ format_error_suffix))"
    using adapters_check_status
      [where e = "test_env (answer 200 (body_code 404))" and url = page_url
         and t = JUndefined and w = w0
         and q = "ascii ''https%3A%2F%2Fwww.douyin.com%2Fvideo%2F1''"
         and body = "body_code 404"
         and resp = "\<lparr>status = 200, final_url = ascii ''https://tenapi.cn/douyin/?url='' @
               ascii ''https%3A%2F%2Fwww.douyin.com%2Fvideo%2F1'', json = Inr (body_code 404)\<rparr>",
         THEN conjunct2, THEN conjunct2, THEN conjunct2, THEN conjunct2]
    by (simp add: encode_page_url api_request_answer body_code_def nullish_def ascii_eq_iff)
  have ok3: "\<exists>r. fst (parseWithAPI3 (test_env (answer 200 (body_code 200))) page_url JUndefined w0)
      = Inr r"
    by (simp add: parseWithAPI3_factored extract3_def eval_defs body_code_def cdn_url_nonempty)
  then obtain r where
    "fst (parseWithAPI3 (test_env (answer 200 (body_code 200))) page_url JUndefined w0) = Inr r"
    by blast
  with adapters_check_status
      [where e = "test_env (answer 200 (body_code 200))" and url = page_url
         and t = JUndefined and w = w0 and r = r,
         THEN conjunct2, THEN conjunct2, THEN conjunct2, THEN conjunct1]
  obtain q' resp' data where
    h: "encodeURIComponent page_url = Inr q'"
       "net (test_env (answer 200 (body_code 200)))
          (api_request (ascii ''https://tenapi.cn/douyin/?url='' @ q') JUndefined) = Resolves resp'"
       "json resp' = Inr data"
       "propOf data (ascii ''code'') = JNum (Num 200)" "truthy (propOf data (ascii ''url''))"
    by blast
  from h(1) have q': "q' = ascii ''https%3A%2F%2Fwww.douyin.com%2Fvideo%2F1''"
    by (simp add: encode_page_url)
  from h(2,3) have "data = body_code 200"
    by (auto simp: api_request_answer)
  with h(4,5) show "\<exists>data. net (test_env (answer 200 (body_code 200)))
           (api_request (ascii ''https://tenapi.cn/douyin/?url='' @
              ascii ''https%3A%2F%2Fwww.douyin.com%2Fvideo%2F1'') JUndefined)
         = Resolves \<lparr>status = 200,
             final_url = ascii ''https://tenapi.cn/douyin/?url='' @
               ascii ''https%3A%2F%2Fwww.douyin.com%2Fvideo%2F1'',
             json = Inr data\<rparr>
         \<and> propOf data (ascii ''code'') = JNum (Num 200)
         \<and> truthy (propOf data (ascii ''url''))"
    by (intro exI [of _ "body_code 200"]) (simp add: api_request_answer)
qed

subsection \<open>resolveRedirect\<close>

text \<open>
  Claim C5. \<open>resolveRedirect\<close> never throws: it always returns a URL. For an input that
  does not contain \<^verbatim>\<open>v.douyin.com\<close> it returns the input and leaves the world as it was,
  so nothing was sent; for a short link whose HEAD request is rejected (network error,
  timeout, abort) it returns the input.
\<close>

theorem resolveRedirect_total:
  "(\<exists>u. fst (resolveRedirect e url t w) = Inr u)
   \<and> (\<not> includes_str url (ascii ''v.douyin.com'') \<longrightarrow>
        resolveRedirect e url t w = (Inr url, w))
   \<and> (includes_str url (ascii ''v.douyin.com'')
        \<and> net e (redirect_request url t) = Rejects error \<longrightarrow>
        fst (resolveRedirect e url t w) = Inr url)"
  by (cases "net e (redirect_request url t)") (simp_all add: resolveRedirect_def fetch_def)

theorem resolveRedirect_total_witness:
  "resolveRedirect (test_env unreachable) page_url JUndefined w0 = (Inr page_url, w0)
   \<and> fst (resolveRedirect (test_env unreachable) short_url JUndefined w0) = Inr short_url"
proof
  show "resolveRedirect (test_env unreachable) page_url JUndefined w0 = (Inr page_url, w0)"
    using resolveRedirect_total
      [where e = "test_env unreachable" and url = page_url and t = JUndefined and w = w0]
      page_url_not_short
    by blast
  have "net (test_env unreachable) (redirect_request short_url JUndefined)
      = Rejects (Host (ascii ''fetch failed''))"
    by (simp add: test_env_def unreachable_def)
  then show "fst (resolveRedirect (test_env unreachable) short_url JUndefined w0) = Inr short_url"
    using resolveRedirect_total
      [where e = "test_env unreachable" and url = short_url and t = JUndefined and w = w0
         and error = "Host (ascii ''fetch failed'')"]
      short_url_short
    by blast
qed

subsection \<open>The timeout of every request\<close>

lemma sends_only_refl: "sends_only t w w"
  by (simp add: sends_only_def)

lemma sends_only_same_log: "fetch_log w' = fetch_log w \<Longrightarrow> sends_only t w w'"
  by (simp add: sends_only_def)

lemma sends_only_trans:
  assumes "sends_only t w w1" and "sends_only t w1 w2"
  shows "sends_only t w w2"
proof -
  from assms obtain rs1 rs2 where
    "fetch_log w1 = fetch_log w @ rs1" "\<forall>r \<in> set rs1. fetch_timeout r = t"
    "fetch_log w2 = fetch_log w1 @ rs2" "\<forall>r \<in> set rs2. fetch_timeout r = t"
    unfolding sends_only_def by blast
  then have "fetch_log w2 = fetch_log w @ (rs1 @ rs2) \<and> (\<forall>r \<in> set (rs1 @ rs2). fetch_timeout r = t)"
    by auto
  then show ?thesis
    unfolding sends_only_def by blast
qed

lemma sends_only_fetch:
  "fetch_timeout r = t \<Longrightarrow> sends_only t w (snd (fetch e r w))"
  unfolding sends_only_def fetch_def
  by (intro exI [of _ "[r]"]) simp

lemma sends_only_new_requests:
  "sends_only t w w' \<Longrightarrow> \<forall>r \<in> set (new_requests w w'). fetch_timeout r = t"
  by (auto simp: sends_only_def new_requests_def)

lemma resolveRedirect_sends: "sends_only t w (snd (resolveRedirect e url t w))"
proof (cases "includes_str url (ascii ''v.douyin.com'')")
  case False
  then show ?thesis by (simp add: resolveRedirect_def sends_only_refl)
next
  case True
  have "snd (resolveRedirect e url t w) = snd (fetch e (redirect_request url t) w)"
    using True by (simp add: resolveRedirect_def split: prod.splits fetch_outcome.splits)
  then show ?thesis
    by (simp add: sends_only_fetch redirect_request_def)
qed

lemma Date_now_log: "fetch_log (snd (Date_now e w)) = fetch_log w"
  by (simp add: Date_now_def)

lemma extract1_log: "fetch_log (snd (extract1 e d w)) = fetch_log w"
  by (simp add: extract1_def Date_now_def)

lemma extract2_log: "fetch_log (snd (extract2 e d w)) = fetch_log w"
  by (simp add: extract2_def Date_now_def)

lemma extract3_log: "fetch_log (snd (extract3 e d w)) = fetch_log w"
  by (simp add: extract3_def Date_now_def)

lemma call_api_sends:
  assumes ex: "\<And>d v. fetch_log (snd (ex d v)) = fetch_log v"
  shows "sends_only t w (snd (call_api e tag base ex url t w))"
proof (cases "encodeURIComponent url")
  case (Inl error)
  then show ?thesis by (simp add: call_api_def sends_only_refl)
next
  case (Inr q)
  let ?w1 = "snd (fetch e (api_request (base @ q) t) w)"
  have s1: "sends_only t w ?w1"
    by (simp add: sends_only_fetch api_request_def)
  have "sends_only t ?w1 (snd (call_api e tag base ex url t w))"
    using Inr
    by (auto simp: call_api_def fetch_def ex intro!: sends_only_same_log
        split: fetch_outcome.splits sum.splits)
  with s1 show ?thesis by (rule sends_only_trans)
qed

lemma loop_sends:
  assumes "\<And>p v. p \<in> set ps \<Longrightarrow> sends_only t v (snd (p url t v))"
  shows "sends_only t w (snd (parseWithFallback_loop ps url t w))"
  using assms
proof (induction ps arbitrary: w)
  case Nil
  show ?case by (simp add: sends_only_refl)
next
  case (Cons p ps)
  obtain res w1 where p: "p url t w = (res, w1)"
    by (cases "p url t w")
  have s1: "sends_only t w w1"
    using Cons.prems [of p w] p by simp
  have rest: "sends_only t w1 (snd (parseWithFallback_loop ps url t w1))"
    by (rule Cons.IH) (simp add: Cons.prems)
  show ?case
  proof (cases "failed res")
    case True
    with p have "parseWithFallback_loop (p # ps) url t w = parseWithFallback_loop ps url t w1"
      by (rule loop_step_failed)
    with s1 rest show ?thesis
      by (simp add: sends_only_trans del: parseWithFallback_loop.simps)
  next
    case False
    then obtain r where "res = Inr r" "usable r"
      by (cases res) (simp_all add: failed_def)
    with p s1 show ?thesis by simp
  qed
qed

lemma parseWithFallback_sends: "sends_only t w (snd (parseWithFallback e url t w))"
  unfolding parseWithFallback_def
  by (rule loop_sends)
     (auto simp: parseWithAPI1_factored parseWithAPI2_factored parseWithAPI3_factored
        intro!: call_api_sends extract1_log extract2_log extract3_log)

lemma display_name_log: "display_name e v w = (nm, w') \<Longrightarrow> fetch_log w' = fetch_log w"
  by (auto simp: display_name_def Date_now_def split: if_splits)

lemma assemble_log: "fetch_log (snd (assemble e v w)) = fetch_log w"
  by (auto simp: assemble_def split: sum.splits jsval.splits prod.splits
      dest: display_name_log)

subsection \<open>The defensive check of the entry point\<close>

lemma resolveRedirect_Inr: "\<exists>u. fst (resolveRedirect e url t w) = Inr u"
  by (cases "net e (redirect_request url t)") (simp_all add: resolveRedirect_def fetch_def)

lemma usable_not_nullish: "usable v \<Longrightarrow> \<not> nullish v"
  by (auto simp: usable_def nullish_def)

lemma sanitize_value_error: "sanitize_value x = Inl error \<Longrightarrow> error \<noteq> Error m"
  by (cases x) (auto simp: sanitize_value_def nullish_def)

lemma assemble_not_missing:
  assumes "usable v"
  shows "fst (assemble e v w) \<noteq> Inl (Error missing_url_message)"
proof -
  from assms have t: "truthy (propOf v (ascii ''downloadUrl''))" and n: "\<not> nullish v"
    by (simp_all add: usable_def usable_not_nullish [OF assms])
  show ?thesis
  proof (cases "propOf v (ascii ''downloadUrl'')")
    case (JStr u)
    with t n show ?thesis
      by (auto simp: assemble_def get_prop_def unsupported_protocol_prefix_def
          missing_url_message_def split: prod.splits sum.splits
          dest: sanitize_value_error)
  qed (use t n in \<open>simp_all add: assemble_def get_prop_def\<close>)
qed

lemma all_failed_not_missing: "all_failed_message \<noteq> missing_url_message"
  by (simp add: all_failed_message_def missing_url_message_def)

lemma default_export_try_not_missing:
  "fst (default_export_try e url t w) \<noteq> Inl (Error missing_url_message)"
proof -
  obtain u w1 where r: "resolveRedirect e url t w = (Inr u, w1)"
    using resolveRedirect_Inr [of e url t w] by (cases "resolveRedirect e url t w") auto
  obtain res w2 where p: "parseWithFallback e u t w1 = (res, w2)"
    by (cases "parseWithFallback e u t w1")
  show ?thesis
  proof (cases res)
    case (Inl error)
    with p have "parseWithFallback_loop [parseWithAPI1 e, parseWithAPI2 e, parseWithAPI3 e]
        u t w1 = (Inl error, w2)"
      by (simp add: parseWithFallback_def del: parseWithFallback_loop.simps)
    then have "error = Error all_failed_message"
      by (rule loop_error_is_aggregate)
    with r p Inl show ?thesis
      by (simp add: default_export_try_def all_failed_not_missing)
  next
    case (Inr v)
    with p have "parseWithFallback_loop [parseWithAPI1 e, parseWithAPI2 e, parseWithAPI3 e]
        u t w1 = (Inr v, w2)"
      by (simp add: parseWithFallback_def del: parseWithFallback_loop.simps)
    then have "usable v"
      by (rule loop_result_usable)
    with r p Inr show ?thesis
      by (simp add: default_export_try_def assemble_not_missing)
  qed
qed

text \<open>
  Claim C9. Whatever \<open>parseWithFallback\<close> returns normally is truthy and has a truthy
  download URL, so the check of line 21 does not fire on it: assembling it never throws
  the missing-download-URL error, and the body of the entry point's \<^verbatim>\<open>try\<close> block never
  throws that error at all.
\<close>

theorem missing_url_check_unreachable:
  "(parseWithFallback e url t w = (Inr videoInfo, w') \<longrightarrow>
      truthy videoInfo \<and> truthy (propOf videoInfo (ascii ''downloadUrl''))
      \<and> fst (assemble e videoInfo w') \<noteq> Inl (Error missing_url_message))
   \<and> fst (default_export_try e url t w) \<noteq> Inl (Error missing_url_message)"
proof (intro conjI impI)
  assume "parseWithFallback e url t w = (Inr videoInfo, w')"
  then have u: "usable videoInfo"
    unfolding parseWithFallback_def by (rule loop_result_usable)
  then show "truthy videoInfo" and "truthy (propOf videoInfo (ascii ''downloadUrl''))"
    by (simp_all add: usable_def)
  from u show "fst (assemble e videoInfo w') \<noteq> Inl (Error missing_url_message)"
    by (rule assemble_not_missing)
next
  show "fst (default_export_try e url t w) \<noteq> Inl (Error missing_url_message)"
    by (rule default_export_try_not_missing)
qed

lemma fallback_answer:
  "u \<noteq> [] \<Longrightarrow>
   parseWithFallback (test_env (answer 200 (body_url u))) page_url t w0
   = (Inr (record_url u),
      \<lparr>fetch_log = [api_request (ascii ''https://api.jiexi.top/?url='' @
           ascii ''https%3A%2F%2Fwww.douyin.com%2Fvideo%2F1'') t], clock_reads = 1\<rparr>)"
  by (simp add: parseWithFallback_def api1_answer usable_record_url)

theorem missing_url_check_unreachable_witness:
  "truthy (record_url cdn_url)
   \<and> truthy (propOf (record_url cdn_url) (ascii ''downloadUrl''))
   \<and> fst (assemble (test_env (answer 200 (body_url cdn_url))) (record_url cdn_url)
        \<lparr>fetch_log = [api_request (ascii ''https://api.jiexi.top/?url='' @
           ascii ''https%3A%2F%2Fwww.douyin.com%2Fvideo%2F1'') JUndefined], clock_reads = 1\<rparr>)
      \<noteq> Inl (Error missing_url_message)"
  using missing_url_check_unreachable
    [where e = "test_env (answer 200 (body_url cdn_url))" and url = page_url
       and t = JUndefined and w = w0 and videoInfo = "record_url cdn_url"
       and w' = "\<lparr>fetch_log = [api_request (ascii ''https://api.jiexi.top/?url='' @
           ascii ''https%3A%2F%2Fwww.douyin.com%2Fvideo%2F1'') JUndefined], clock_reads = 1\<rparr>",
     THEN conjunct1, THEN mp, OF fallback_answer [OF cdn_url_nonempty]]
  by blast

subsection \<open>The default timeout\<close>

lemma default_export_sends:
  "sends_only (effective_timeout c) w (snd (default_export e c w))"
proof -
  let ?t = "effective_timeout c"
  obtain u w1 where r: "resolveRedirect e (ctx_req_url c) ?t w = (Inr u, w1)"
    using resolveRedirect_Inr [of e "ctx_req_url c" ?t w]
    by (cases "resolveRedirect e (ctx_req_url c) ?t w") auto
  obtain res w2 where p: "parseWithFallback e u ?t w1 = (res, w2)"
    by (cases "parseWithFallback e u ?t w1")
  have s1: "sends_only ?t w w1"
    using resolveRedirect_sends [of ?t w e "ctx_req_url c"] r by simp
  have s2: "sends_only ?t w1 w2"
    using parseWithFallback_sends [of ?t w1 e u] p by simp
  have s12: "sends_only ?t w w2"
    using s1 s2 by (rule sends_only_trans)
  show ?thesis
  proof (cases res)
    case (Inl error)
    with r p s12 show ?thesis
      by (simp add: default_export_def default_export_try_def)
  next
    case (Inr v)
    have "sends_only ?t w2 (snd (assemble e v w2))"
      by (rule sends_only_same_log) (rule assemble_log)
    with s12 have "sends_only ?t w (snd (assemble e v w2))"
      by (rule sends_only_trans)
    with r p Inr show ?thesis
      by (auto simp: default_export_def default_export_try_def split: sum.splits prod.splits)
  qed
qed

text \<open>
  Claim C10. When \<^verbatim>\<open>settings.timeout\<close> is absent or falsy, the timeout is 30000, and every
  request the run sends (the redirect check and each adapter attempt) carries it; a
  timeout of 0 is therefore replaced by 30000, and no context gives the timeout 0.
\<close>

theorem default_timeout:
  "(\<not> truthy (opt_prop (ctx_settings c) (ascii ''timeout'')) \<longrightarrow>
      effective_timeout c = JNum (Num 30000)
      \<and> (\<forall>r \<in> set (new_requests w (snd (default_export e c w))).
            fetch_timeout r = JNum (Num 30000)))
   \<and> effective_timeout \<lparr>ctx_req_url = u, ctx_settings = JUndefined\<rparr> = JNum (Num 30000)
   \<and> effective_timeout
        \<lparr>ctx_req_url = u, ctx_settings = JObj [(ascii ''timeout'', JNum (Num 0))]\<rparr>
      = JNum (Num 30000)
   \<and> effective_timeout c \<noteq> JNum (Num 0)"
proof (intro conjI impI)
  assume "\<not> truthy (opt_prop (ctx_settings c) (ascii ''timeout''))"
  then show t: "effective_timeout c = JNum (Num 30000)"
    by (simp add: effective_timeout_def js_or_def)
  show "\<forall>r \<in> set (new_requests w (snd (default_export e c w))).
            fetch_timeout r = JNum (Num 30000)"
    using default_export_sends [of c w e] unfolding t by (rule sends_only_new_requests)
next
  show "effective_timeout \<lparr>ctx_req_url = u, ctx_settings = JUndefined\<rparr> = JNum (Num 30000)"
    by (simp add: effective_timeout_def js_or_def opt_prop_def nullish_def)
  show "effective_timeout
        \<lparr>ctx_req_url = u, ctx_settings = JObj [(ascii ''timeout'', JNum (Num 0))]\<rparr>
      = JNum (Num 30000)"
    by (simp add: effective_timeout_def js_or_def opt_prop_def nullish_def)
  show "effective_timeout c \<noteq> JNum (Num 0)"
    by (auto simp: effective_timeout_def js_or_def)
qed

subsection \<open>Whole runs in the sample environments\<close>

lemma encode_short_url:
  "encodeURIComponent short_url = Inr (ascii ''https%3A%2F%2Fv.douyin.com%2Fabc%2F'')"
  by (simp add: short_url_def encodeURIComponent.simps uriUnescaped_def escape_def utf8_def
      hexDigit_def ascii_def)

lemma resolve_page_url: "resolveRedirect e page_url t w = (Inr page_url, w)"
  by (simp add: resolveRedirect_def page_url_not_short)

lemma resolve_short_url:
  "resolveRedirect (test_env (answer code b)) short_url t w0
   = (Inr short_url, \<lparr>fetch_log = [redirect_request short_url t], clock_reads = 0\<rparr>)"
  by (simp add: resolveRedirect_def short_url_short fetch_def test_env_def answer_def
      redirect_request_def w0_def)

lemma api1_answer_short:
  "parseWithAPI1 (test_env (answer 200 (body_url cdn_url))) short_url t
     \<lparr>fetch_log = [r0], clock_reads = 0\<rparr>
   = (Inr (record_url cdn_url),
      \<lparr>fetch_log = [r0, api_request (ascii ''https://api.jiexi.top/?url='' @
           ascii ''https%3A%2F%2Fv.douyin.com%2Fabc%2F'') t], clock_reads = 1\<rparr>)"
  by (simp add: parseWithAPI1_factored extract1_def call_api_def fetch_def test_env_def answer_def
      ok_def nullish_def js_or_def ascii_eq_iff ascii_eq_Nil Date_now_def
      generated_filename_test encode_short_url body_url_def record_url_def cdn_url_nonempty)

lemma sanitize_generated:
  "sanitizeFilename (ascii ''douyin_1700000000000.mp4'') = ascii ''douyin_1700000000000.mp4''"
  by (simp add: sanitizeFilename_def substring0_def trim_def replace_class_def
      illegalChar_def isWhiteSpace_def ascii_def)

lemma assemble_record_url:
  "u \<noteq> [] \<Longrightarrow> startsWith u (ascii ''http'') \<Longrightarrow>
   assemble e (record_url u) w = (Inr (outcome_for u), w)"
  by (simp add: assemble_def get_prop_def nullish_def record_url_def ascii_eq_iff ascii_eq_Nil
      display_name_def sanitize_value_def sanitize_generated js_or_def outcome_for_def)

lemma cdn_url_http: "startsWith cdn_url (ascii ''http'')"
  by (simp add: cdn_url_def startsWith_def ascii_def)

lemma run_zero_timeout:
  "default_export (test_env (answer 200 (body_url cdn_url))) zero_timeout w0
   = (Inr (outcome_for cdn_url),
      \<lparr>fetch_log =
         [redirect_request short_url (JNum (Num 30000)),
          api_request (ascii ''https://api.jiexi.top/?url='' @
            ascii ''https%3A%2F%2Fv.douyin.com%2Fabc%2F'') (JNum (Num 30000))],
       clock_reads = 1\<rparr>)"
proof -
  have t: "effective_timeout zero_timeout = JNum (Num 30000)"
    by (simp add: effective_timeout_def zero_timeout_def js_or_def opt_prop_def nullish_def)
  have u: "ctx_req_url zero_timeout = short_url"
    by (simp add: zero_timeout_def)
  show ?thesis
    by (simp add: default_export_def default_export_try_def t u
        resolve_short_url parseWithFallback_def api1_answer_short usable_record_url
        cdn_url_nonempty assemble_record_url cdn_url_http)
qed

theorem default_timeout_witness:
  "effective_timeout zero_timeout = JNum (Num 30000)
   \<and> map fetch_timeout
        (new_requests w0
           (snd (default_export (test_env (answer 200 (body_url cdn_url))) zero_timeout w0)))
      = [JNum (Num 30000), JNum (Num 30000)]"
proof -
  let ?e = "test_env (answer 200 (body_url cdn_url))"
  let ?rs = "new_requests w0 (snd (default_export ?e zero_timeout w0))"
  have falsy: "\<not> truthy (opt_prop (ctx_settings zero_timeout) (ascii ''timeout''))"
    by (simp add: zero_timeout_def opt_prop_def nullish_def)
  with default_timeout [where c = zero_timeout and e = ?e and w = w0]
  have t: "effective_timeout zero_timeout = JNum (Num 30000)"
    and all: "\<forall>r \<in> set ?rs. fetch_timeout r = JNum (Num 30000)"
    by blast+
  have "length ?rs = 2"
    unfolding new_requests_def run_zero_timeout by (simp add: w0_def)
  then obtain r1 r2 where "?rs = [r1, r2]"
    by (cases ?rs; cases "tl ?rs") auto
  with all have "map fetch_timeout ?rs = [JNum (Num 30000), JNum (Num 30000)]"
    by simp
  with t show ?thesis by simp
qed

subsection \<open>The protocol check\<close>

lemma assemble_bad_protocol:
  assumes "\<not> nullish v" and "propOf v (ascii ''downloadUrl'') = JStr u" and "u \<noteq> []"
    and "\<not> startsWith u (ascii ''http'')"
  shows "assemble e v w = (Inl (Error (unsupported_protocol_prefix @ u)), w)"
  using assms by (simp add: assemble_def get_prop_def)

text \<open>
  Claim C3, amended. For every record the orchestrator returns whose download URL is a
  string that does not start with the four characters \<^verbatim>\<open>http\<close>, the entry point fails:
  the validation step throws the unsupported-protocol error carrying the URL, and the
  entry point rethrows it wrapped. \<^verbatim>\<open>ftp://x/y.mp4\<close> is such a URL.
\<close>

theorem protocol_gate:
  "(resolveRedirect e (ctx_req_url c) (effective_timeout c) w = (Inr finalUrl, w1)
      \<and> parseWithFallback e finalUrl (effective_timeout c) w1 = (Inr videoInfo, w2)
      \<and> propOf videoInfo (ascii ''downloadUrl'') = JStr u
      \<and> \<not> startsWith u (ascii ''http'') \<longrightarrow>
    assemble e videoInfo w2 = (Inl (Error (unsupported_protocol_prefix @ u)), w2)
    \<and> default_export e c w
        = (Inl (Error (failure_prefix @ unsupported_protocol_prefix @ u)), w2))
   \<and> \<not> startsWith (ascii ''ftp://x/y.mp4'') (ascii ''http'')"
proof (intro conjI impI)
  assume h: "resolveRedirect e (ctx_req_url c) (effective_timeout c) w = (Inr finalUrl, w1)
      \<and> parseWithFallback e finalUrl (effective_timeout c) w1 = (Inr videoInfo, w2)
      \<and> propOf videoInfo (ascii ''downloadUrl'') = JStr u
      \<and> \<not> startsWith u (ascii ''http'')"
  then have "parseWithFallback_loop [parseWithAPI1 e, parseWithAPI2 e, parseWithAPI3 e]
      finalUrl (effective_timeout c) w1 = (Inr videoInfo, w2)"
    by (simp add: parseWithFallback_def del: parseWithFallback_loop.simps)
  then have us: "usable videoInfo"
    by (rule loop_result_usable)
  with h have "u \<noteq> []"
    by (auto simp: usable_def)
  with h us show a: "assemble e videoInfo w2
      = (Inl (Error (unsupported_protocol_prefix @ u)), w2)"
    by (simp add: assemble_bad_protocol usable_not_nullish)
  with h show "default_export e c w
        = (Inl (Error (failure_prefix @ unsupported_protocol_prefix @ u)), w2)"
    by (simp add: default_export_def default_export_try_def)
next
  show "\<not> startsWith (ascii ''ftp://x/y.mp4'') (ascii ''http'')"
    by (simp add: startsWith_def ascii_def)
qed

theorem protocol_gate_witness:
  "default_export (test_env (answer 200 (body_url (ascii ''ftp://x/y.mp4'')))) no_settings w0
   = (Inl (Error (failure_prefix @ unsupported_protocol_prefix @ ascii ''ftp://x/y.mp4'')),
      \<lparr>fetch_log = [api_request (ascii ''https://api.jiexi.top/?url='' @
           ascii ''https%3A%2F%2Fwww.douyin.com%2Fvideo%2F1'') (JNum (Num 30000))],
       clock_reads = 1\<rparr>)"
proof -
  let ?e = "test_env (answer 200 (body_url (ascii ''ftp://x/y.mp4'')))"
  let ?w = "\<lparr>fetch_log = [api_request (ascii ''https://api.jiexi.top/?url='' @
           ascii ''https%3A%2F%2Fwww.douyin.com%2Fvideo%2F1'') (JNum (Num 30000))],
       clock_reads = 1\<rparr>"
  have t: "effective_timeout no_settings = JNum (Num 30000)"
    by (simp add: effective_timeout_def no_settings_def js_or_def opt_prop_def nullish_def)
  have u: "ctx_req_url no_settings = page_url"
    by (simp add: no_settings_def)
  have ne: "ascii ''ftp://x/y.mp4'' \<noteq> []"
    by (simp add: ascii_eq_Nil)
  have "resolveRedirect ?e (ctx_req_url no_settings) (effective_timeout no_settings) w0
          = (Inr page_url, w0)
      \<and> parseWithFallback ?e page_url (effective_timeout no_settings) w0
          = (Inr (record_url (ascii ''ftp://x/y.mp4'')), ?w)
      \<and> propOf (record_url (ascii ''ftp://x/y.mp4'')) (ascii ''downloadUrl'')
          = JStr (ascii ''ftp://x/y.mp4'')
      \<and> \<not> startsWith (ascii ''ftp://x/y.mp4'') (ascii ''http'')"
    by (simp add: t u resolve_page_url fallback_answer [OF ne] record_url_def ascii_eq_iff)
       (simp add: startsWith_def ascii_def)
  with protocol_gate
    [where e = ?e and c = no_settings and w = w0 and finalUrl = page_url and ?w1.0 = w0
       and videoInfo = "record_url (ascii ''ftp://x/y.mp4'')" and ?w2.0 = ?w
       and u = "ascii ''ftp://x/y.mp4''"]
  show ?thesis by blast
qed

text \<open>
  The claim as first stated, for every URL whose scheme is not HTTP or HTTPS, fails: the
  check is a prefix test, and a download URL with the scheme \<^verbatim>\<open>httpx\<close> passes it.
\<close>

theorem protocol_gate_counterexample:
  "\<not> http_scheme (ascii ''httpx://x/y.mp4'')
   \<and> parseWithFallback (test_env (answer 200 (body_url (ascii ''httpx://x/y.mp4''))))
        page_url (JNum (Num 30000)) w0
     = (Inr (record_url (ascii ''httpx://x/y.mp4'')),
        \<lparr>fetch_log = [api_request (ascii ''https://api.jiexi.top/?url='' @
           ascii ''https%3A%2F%2Fwww.douyin.com%2Fvideo%2F1'') (JNum (Num 30000))],
         clock_reads = 1\<rparr>)
   \<and> default_export (test_env (answer 200 (body_url (ascii ''httpx://x/y.mp4''))))
        no_settings w0
     = (Inr (outcome_for (ascii ''httpx://x/y.mp4'')),
        \<lparr>fetch_log = [api_request (ascii ''https://api.jiexi.top/?url='' @
           ascii ''https%3A%2F%2Fwww.douyin.com%2Fvideo%2F1'') (JNum (Num 30000))],
         clock_reads = 1\<rparr>)"
proof (intro conjI)
  have t: "effective_timeout no_settings = JNum (Num 30000)"
    by (simp add: effective_timeout_def no_settings_def js_or_def opt_prop_def nullish_def)
  have u: "ctx_req_url no_settings = page_url"
    by (simp add: no_settings_def)
  have ne: "ascii ''httpx://x/y.mp4'' \<noteq> []"
    by (simp add: ascii_eq_Nil)
  have http: "startsWith (ascii ''httpx://x/y.mp4'') (ascii ''http'')"
    by (simp add: startsWith_def ascii_def)
  show "\<not> http_scheme (ascii ''httpx://x/y.mp4'')"
    by (simp add: http_scheme_def url_scheme_def lower_def ascii_def)
  show "parseWithFallback (test_env (answer 200 (body_url (ascii ''httpx://x/y.mp4''))))
        page_url (JNum (Num 30000)) w0
     = (Inr (record_url (ascii ''httpx://x/y.mp4'')),
        \<lparr>fetch_log = [api_request (ascii ''https://api.jiexi.top/?url='' @
           ascii ''https%3A%2F%2Fwww.douyin.com%2Fvideo%2F1'') (JNum (Num 30000))],
         clock_reads = 1\<rparr>)"
    by (rule fallback_answer [OF ne])
  show "default_export (test_env (answer 200 (body_url (ascii ''httpx://x/y.mp4''))))
        no_settings w0
     = (Inr (outcome_for (ascii ''httpx://x/y.mp4'')),
        \<lparr>fetch_log = [api_request (ascii ''https://api.jiexi.top/?url='' @
           ascii ''https%3A%2F%2Fwww.douyin.com%2Fvideo%2F1'') (JNum (Num 30000))],
         clock_reads = 1\<rparr>)"
    by (simp add: default_export_def default_export_try_def t u resolve_page_url
        fallback_answer [OF ne] assemble_record_url [OF ne http])
qed

subsection \<open>The display name\<close>














subsection \<open>A whole successful run\<close>

lemma extract1_shape:
  assumes "extract1 e d w = (Inr r, w')"
  shows "\<exists>ti dl co au du now. r = JObj
     [(ascii ''title'', ti), (ascii ''downloadUrl'', dl), (ascii ''cover'', co),
      (ascii ''author'', au), (ascii ''duration'', du),
      (ascii ''filename'', JStr (generated_filename now))]"
  using assms by (auto simp: extract1_def Date_now_def split: if_splits)

lemma parseWithAPI1_shape:
  assumes "parseWithAPI1 e url t w = (Inr r, w')"
  shows "\<exists>ti dl co au du now. r = JObj
     [(ascii ''title'', ti), (ascii ''downloadUrl'', dl), (ascii ''cover'', co),
      (ascii ''author'', au), (ascii ''duration'', du),
      (ascii ''filename'', JStr (generated_filename now))]"
proof -
  from assms obtain d v where "extract1 e d v = (Inr r, w')"
    unfolding parseWithAPI1_factored by (blast dest: call_api_Inr)
  then show ?thesis by (rule extract1_shape)
qed

text \<open>
  Claim C7. When the first adapter yields a record with the download URL
  \<^verbatim>\<open>https://cdn.example/v.mp4\<close> and the title \<^verbatim>\<open>T\<close>, the entry point returns an outcome
  whose name is \<^verbatim>\<open>T\<close>, whose files are exactly one descriptor with that request URL and
  the fixed five headers, and whose platform is \<^verbatim>\<open>douyin\<close>.
\<close>

theorem end_to_end_success:
  "resolveRedirect e (ctx_req_url c) (effective_timeout c) w = (Inr finalUrl, w1)
   \<and> parseWithAPI1 e finalUrl (effective_timeout c) w1 = (Inr r, w2)
   \<and> propOf r (ascii ''downloadUrl'') = JStr (ascii ''https://cdn.example/v.mp4'')
   \<and> propOf r (ascii ''title'') = JStr (ascii ''T'') \<longrightarrow>
   (\<exists>out f. default_export e c w = (Inr out, w2)
      \<and> name out = JStr (ascii ''T'')
      \<and> files out = [f]
      \<and> req_url (req f) = JStr (ascii ''https://cdn.example/v.mp4'')
      \<and> req_headers (req f) =
          [(ascii ''User-Agent'', ascii ''Mozilla/5.0 (iPhone; CPU iPhone OS 15_0 like Mac OS X) AppleWebKit/605.1.15 (KHTML, like Gecko) Version/15.0 Mobile/15E148 Safari/604.1''),
           (ascii ''Referer'', ascii ''https://www.douyin.com/''),
           (ascii ''Accept'', ascii ''video/mp4,video/webm,video/*;q=0.9,*/*;q=0.8''),
           (ascii ''Accept-Language'', ascii ''zh-CN,zh;q=0.9,en;q=0.8''),
           (ascii ''Range'', ascii ''bytes=0-'')]
      \<and> platform (extra out) = ascii ''douyin'')"
proof
  assume h: "resolveRedirect e (ctx_req_url c) (effective_timeout c) w = (Inr finalUrl, w1)
   \<and> parseWithAPI1 e finalUrl (effective_timeout c) w1 = (Inr r, w2)
   \<and> propOf r (ascii ''downloadUrl'') = JStr (ascii ''https://cdn.example/v.mp4'')
   \<and> propOf r (ascii ''title'') = JStr (ascii ''T'')"
  let ?u = "ascii ''https://cdn.example/v.mp4''"
  from h obtain ti dl co au du now where r: "r = JObj
     [(ascii ''title'', ti), (ascii ''downloadUrl'', dl), (ascii ''cover'', co),
      (ascii ''author'', au), (ascii ''duration'', du),
      (ascii ''filename'', JStr (generated_filename now))]"
    by (blast dest: parseWithAPI1_shape)
  from h r have dl: "dl = JStr ?u" and ti: "ti = JStr (ascii ''T'')"
    by (simp_all add: ascii_eq_iff)
  have us: "usable r"
    by (simp add: usable_def r dl ascii_eq_iff ascii_eq_Nil)
  with h have p: "parseWithFallback e finalUrl (effective_timeout c) w1 = (Inr r, w2)"
    by (simp add: parseWithFallback_def)
  have http: "startsWith ?u (ascii ''http'')"
    by (simp add: startsWith_def ascii_def)
  let ?out = "\<lparr>name = JStr (ascii ''T''),
      files = [\<lparr>file_name = sanitizeFilename (generated_filename now),
                file_size = JNum (Num 0),
                req = \<lparr>req_url = JStr ?u, req_headers = download_headers\<rparr>\<rparr>],
      extra = \<lparr>cover = co, author = au, duration = du, platform = ascii ''douyin''\<rparr>\<rparr>"
  have "assemble e r w2 = (Inr ?out, w2)"
    using http
    by (simp add: assemble_def get_prop_def nullish_def r dl ti ascii_eq_iff ascii_eq_Nil
        display_name_def sanitize_value_def js_or_def)
  with h p have "default_export e c w = (Inr ?out, w2)"
    by (simp add: default_export_def default_export_try_def)
  then show "\<exists>out f. default_export e c w = (Inr out, w2)
      \<and> name out = JStr (ascii ''T'')
      \<and> files out = [f]
      \<and> req_url (req f) = JStr (ascii ''https://cdn.example/v.mp4'')
      \<and> req_headers (req f) =
          [(ascii ''User-Agent'', ascii ''Mozilla/5.0 (iPhone; CPU iPhone OS 15_0 like Mac OS X) AppleWebKit/605.1.15 (KHTML, like Gecko) Version/15.0 Mobile/15E148 Safari/604.1''),
           (ascii ''Referer'', ascii ''https://www.douyin.com/''),
           (ascii ''Accept'', ascii ''video/mp4,video/webm,video/*;q=0.9,*/*;q=0.8''),
           (ascii ''Accept-Language'', ascii ''zh-CN,zh;q=0.9,en;q=0.8''),
           (ascii ''Range'', ascii ''bytes=0-'')]
      \<and> platform (extra out) = ascii ''douyin''"
    by (intro exI [of _ ?out]
        exI [of _ "\<lparr>file_name = sanitizeFilename (generated_filename now),
                file_size = JNum (Num 0),
                req = \<lparr>req_url = JStr ?u, req_headers = download_headers\<rparr>\<rparr>"])
       (simp add: download_headers_def mobile_user_agent_def)
qed

theorem end_to_end_success_witness:
  "default_export (test_env (answer 200 (body_url (ascii ''https://cdn.example/v.mp4''))))
     no_settings w0
   = (Inr (outcome_for (ascii ''https://cdn.example/v.mp4'')),
      \<lparr>fetch_log = [api_request (ascii ''https://api.jiexi.top/?url='' @
           ascii ''https%3A%2F%2Fwww.douyin.com%2Fvideo%2F1'') (JNum (Num 30000))],
       clock_reads = 1\<rparr>)
   \<and> name (outcome_for (ascii ''https://cdn.example/v.mp4'')) = JStr (ascii ''T'')
   \<and> map (\<lambda>f. req_url (req f)) (files (outcome_for (ascii ''https://cdn.example/v.mp4'')))
      = [JStr (ascii ''https://cdn.example/v.mp4'')]
   \<and> platform (extra (outcome_for (ascii ''https://cdn.example/v.mp4''))) = ascii ''douyin''"
proof -
  let ?u = "ascii ''https://cdn.example/v.mp4''"
  let ?e = "test_env (answer 200 (body_url ?u))"
  let ?w = "\<lparr>fetch_log = [api_request (ascii ''https://api.jiexi.top/?url='' @
           ascii ''https%3A%2F%2Fwww.douyin.com%2Fvideo%2F1'') (JNum (Num 30000))],
       clock_reads = 1\<rparr>"
  have t: "effective_timeout no_settings = JNum (Num 30000)"
    by (simp add: effective_timeout_def no_settings_def js_or_def opt_prop_def nullish_def)
  have u: "ctx_req_url no_settings = page_url"
    by (simp add: no_settings_def)
  have ne: "?u \<noteq> []"
    by (simp add: ascii_eq_Nil)
  have "resolveRedirect ?e (ctx_req_url no_settings) (effective_timeout no_settings) w0
          = (Inr page_url, w0)
      \<and> parseWithAPI1 ?e page_url (effective_timeout no_settings) w0 = (Inr (record_url ?u), ?w)
      \<and> propOf (record_url ?u) (ascii ''downloadUrl'') = JStr ?u
      \<and> propOf (record_url ?u) (ascii ''title'') = JStr (ascii ''T'')"
    by (simp add: t u resolve_page_url api1_answer [OF ne] record_url_def ascii_eq_iff)
  with end_to_end_success
    [where e = ?e and c = no_settings and w = w0 and finalUrl = page_url and ?w1.0 = w0
       and r = "record_url ?u" and ?w2.0 = ?w]
  obtain out f where o: "default_export ?e no_settings w0 = (Inr out, ?w)"
    "name out = JStr (ascii ''T'')" "files out = [f]" "req_url (req f) = JStr ?u"
    "platform (extra out) = ascii ''douyin''"
    by blast
  have http: "startsWith ?u (ascii ''http'')"
    by (simp add: startsWith_def ascii_def)
  have run: "default_export ?e no_settings w0 = (Inr (outcome_for ?u), ?w)"
    by (simp add: default_export_def default_export_try_def t u resolve_page_url
        fallback_answer [OF ne] assemble_record_url [OF ne http])
  with o have "out = outcome_for ?u" by simp
  with o run show ?thesis by simp
qed

end
